theory Spec2Isabelle
  imports Complex_Main
begin

section \<open>Values of a parsed response\<close>

text \<open>
  \<^verbatim>\<open>response.json()\<close> returns what Python's JSON decoder builds: \<^verbatim>\<open>None\<close>, a bool, an
  int, a float, a str, a list or a dict whose keys are strings. A float is kept as the
  rational it denotes, or one of the three non-finite values the decoder also accepts;
  the program never computes with one. A string is the list of its code points (a
  \<open>char\<close> holds the code points below 256). A dict is the list of its items in
  insertion order; a key is looked up with \<open>map_of\<close>.
\<close>

datatype pyfloat = Finite rat | PosInf | NegInf | NaN

datatype json =
    JNull
  | JBool bool
  | JInt int
  | JFloat pyfloat
  | JStr string
  | JList "json list"
  | JObj "(string \<times> json) list"

subsection \<open>Exceptions\<close>

text \<open>
  The classes of exception that the HTTP library can raise, as far as the handlers of
  \<^verbatim>\<open>fetch_weather_data\<close> tell them apart. \<open>RequestsJSONDecodeError\<close> is the library's own
  decode error, a subclass both of its \<open>RequestException\<close> and of the decoder's error;
  \<open>JSONDecodeError\<close> is the decoder's error alone.
\<close>

datatype exc_class =
    HTTPError
  | ConnectionError
  | Timeout
  | OtherRequestException
  | RequestsJSONDecodeError
  | JSONDecodeError
  | OtherException

record exc =
  cls :: exc_class
  msg :: string

datatype py_error =
    KeyError json
  | TypeError
  | IndexError
  | ValueError
  | OverflowError
  | OSError
  | EOFError
  | UnboundLocalError
  | FileNotFoundError
  | NotADirectoryError
  | IsADirectoryError
  | SystemExit
  | Raised exc

definition and_then :: "'e + 'a \<Rightarrow> ('a \<Rightarrow> 'e + 'b) \<Rightarrow> 'e + 'b" where
  "and_then r f = (case r of Inl e \<Rightarrow> Inl e | Inr v \<Rightarrow> f v)"

subsection \<open>The operations of Python that the program applies to a value\<close>

text \<open>Truth value testing: \<^verbatim>\<open>if x\<close>, \<^verbatim>\<open>not x\<close>, \<^verbatim>\<open>x and y\<close>.\<close>

fun truthy :: "json \<Rightarrow> bool" where
  "truthy JNull = False"
| "truthy (JBool b) = b"
| "truthy (JInt i) = (i \<noteq> 0)"
| "truthy (JFloat f) = (f \<noteq> Finite 0)"
| "truthy (JStr s) = (s \<noteq> [])"
| "truthy (JList xs) = (xs \<noteq> [])"
| "truthy (JObj kvs) = (kvs \<noteq> [])"

text \<open>\<^verbatim>\<open>x[k]\<close> for a string \<open>k\<close>: only a dict accepts a string subscript.\<close>

fun getitem :: "json \<Rightarrow> string \<Rightarrow> py_error + json" where
  "getitem (JObj kvs) k =
     (case map_of kvs k of None \<Rightarrow> Inl (KeyError (JStr k)) | Some v \<Rightarrow> Inr v)"
| "getitem JNull k = Inl TypeError"
| "getitem (JBool b) k = Inl TypeError"
| "getitem (JInt i) k = Inl TypeError"
| "getitem (JFloat f) k = Inl TypeError"
| "getitem (JStr s) k = Inl TypeError"
| "getitem (JList xs) k = Inl TypeError"

text \<open>\<^verbatim>\<open>x[0]\<close>: the first element of a list, the first character of a string; a dict of
  string keys has no key \<open>0\<close>.\<close>

fun getitem0 :: "json \<Rightarrow> py_error + json" where
  "getitem0 (JList xs) = (case xs of [] \<Rightarrow> Inl IndexError | x # _ \<Rightarrow> Inr x)"
| "getitem0 (JStr s) = (case s of [] \<Rightarrow> Inl IndexError | c # _ \<Rightarrow> Inr (JStr [c]))"
| "getitem0 (JObj kvs) = Inl (KeyError (JInt 0))"
| "getitem0 JNull = Inl TypeError"
| "getitem0 (JBool b) = Inl TypeError"
| "getitem0 (JInt i) = Inl TypeError"
| "getitem0 (JFloat f) = Inl TypeError"

text \<open>\<^verbatim>\<open>len(x)\<close>.\<close>

fun py_len :: "json \<Rightarrow> py_error + nat" where
  "py_len (JList xs) = Inr (length xs)"
| "py_len (JStr s) = Inr (length s)"
| "py_len (JObj kvs) = Inr (length kvs)"
| "py_len JNull = Inl TypeError"
| "py_len (JBool b) = Inl TypeError"
| "py_len (JInt i) = Inl TypeError"
| "py_len (JFloat f) = Inl TypeError"

text \<open>\<^verbatim>\<open>k in x\<close> for a string \<open>k\<close>: a key of a dict, an element of a list, a substring of
  a string.\<close>

fun substring :: "string \<Rightarrow> string \<Rightarrow> bool" where
  "substring k [] = (k = [])"
| "substring k (c # s) = (take (length k) (c # s) = k \<or> substring k s)"

fun py_in :: "string \<Rightarrow> json \<Rightarrow> py_error + bool" where
  "py_in k (JObj kvs) = Inr (k \<in> set (map fst kvs))"
| "py_in k (JList xs) = Inr (JStr k \<in> set xs)"
| "py_in k (JStr s) = Inr (substring k s)"
| "py_in k JNull = Inl TypeError"
| "py_in k (JBool b) = Inl TypeError"
| "py_in k (JInt i) = Inl TypeError"
| "py_in k (JFloat f) = Inl TypeError"

text \<open>\<^verbatim>\<open>for entry in x\<close>: the elements of a list, the characters of a string, the keys
  of a dict.\<close>

fun py_iter :: "json \<Rightarrow> py_error + json list" where
  "py_iter (JList xs) = Inr xs"
| "py_iter (JStr s) = Inr (map (\<lambda>c. JStr [c]) s)"
| "py_iter (JObj kvs) = Inr (map (\<lambda>kv. JStr (fst kv)) kvs)"
| "py_iter JNull = Inl TypeError"
| "py_iter (JBool b) = Inl TypeError"
| "py_iter (JInt i) = Inl TypeError"
| "py_iter (JFloat f) = Inl TypeError"

section \<open>The platform\<close>

text \<open>
  A naive local \<^verbatim>\<open>datetime\<close> is the number of seconds, and the microseconds, that its
  wall clock reading lies after the reading 1970-01-01 00:00:00.

  What the run takes from outside is a parameter of the model: the environment
  variables, the line typed at the prompt (\<open>None\<close> at end of input), what the HTTP
  library does with the one request, the local time zone of
  \<^verbatim>\<open>datetime.datetime.fromtimestamp\<close> (for an integer and for a float argument, each with
  the errors of the platform), \<^verbatim>\<open>str.title\<close>, and what the plotting library does when
  \<^verbatim>\<open>sns.lineplot\<close> is given the values \<open>x\<close> and \<open>y\<close>: it draws them (\<open>None\<close>) or raises.
\<close>

datatype datetime = Datetime (wall_seconds: int) (microsecond: nat)

record response =
  status_code :: int
  http_error_text :: string
  body :: "exc + json"

datatype attempt = GetRaises exc | GetReturns response

record platform =
  getenv :: "string \<Rightarrow> string option"
  typed_line :: "string option"
  http_get :: "string \<Rightarrow> (string \<times> string) list \<Rightarrow> attempt"
  localtime :: "int \<Rightarrow> py_error + datetime"
  localtime_float :: "pyfloat \<Rightarrow> py_error + datetime"
  title :: "string \<Rightarrow> string"
  lineplot :: "datetime list \<Rightarrow> json list \<Rightarrow> py_error option"

text \<open>\<^verbatim>\<open>datetime.datetime.fromtimestamp(x)\<close>: a bool is an int; anything but a number
  is a type error.\<close>

fun fromtimestamp :: "platform \<Rightarrow> json \<Rightarrow> py_error + datetime" where
  "fromtimestamp P (JInt t) = localtime P t"
| "fromtimestamp P (JBool b) = localtime P (if b then 1 else 0)"
| "fromtimestamp P (JFloat f) = localtime_float P f"
| "fromtimestamp P JNull = Inl TypeError"
| "fromtimestamp P (JStr s) = Inl TypeError"
| "fromtimestamp P (JList xs) = Inl TypeError"
| "fromtimestamp P (JObj kvs) = Inl TypeError"

section \<open>The state of a run\<close>

text \<open>
  The six lists that \<^verbatim>\<open>process_forecast_data\<close> fills and returns as a tuple, in the
  tuple's order.
\<close>

record columns =
  timestamps :: "datetime list"
  temperatures :: "json list"
  feels_like_temps :: "json list"
  humidities :: "json list"
  wind_speeds :: "json list"
  weather_descriptions_main :: "json list"

text \<open>
  A figure is what a rendering operation has handed to the plotting library when it
  saves: the data and the title. Drawing is the library's work; whether it draws a
  line or raises is the platform's \<open>lineplot\<close>. The pie chart is drawn from the
  \<^verbatim>\<open>Counter\<close> of the labels, which the label sequence determines.
\<close>

datatype figure =
    TemperatureFigure "datetime list" "json list" "json list" string
  | HumidityFigure "datetime list" "json list" string
  | WindSpeedFigure "datetime list" "json list" string
  | ConditionsPie "json list" string

datatype node = Directory | Image figure | OtherFile

record world =
  stdout :: "string list"
  fs :: "string \<Rightarrow> node option"
  requests_sent :: "(string \<times> (string \<times> string) list) list"
  shown :: "figure list"

definition print_line :: "string \<Rightarrow> world \<Rightarrow> world" where
  "print_line s w = w\<lparr>stdout := stdout w @ [s]\<rparr>"

definition BASE_API_URL :: string where
  "BASE_API_URL = ''http://api.openweathermap.org/data/2.5/forecast''"

definition PLOTS_DIR :: string where
  "PLOTS_DIR = ''visualizations''"

section \<open>Transformation\<close>

text \<open>
  One turn of the loop of \<^verbatim>\<open>process_forecast_data\<close>, statement by statement. An
  exception leaves the loop and the function; the lists are local, so nothing of them
  remains.
\<close>

definition weather_label :: "json \<Rightarrow> py_error + json" where
  "weather_label entry =
     and_then (getitem entry ''weather'') (\<lambda>c.
     and_then (if truthy c
               then and_then (py_len c) (\<lambda>n. Inr (n > 0))
               else Inr False) (\<lambda>nonempty.
     if nonempty
     then and_then (getitem entry ''weather'') (\<lambda>c1.
          and_then (getitem0 c1) (\<lambda>first.
          getitem first ''main''))
     else Inr (JStr ''N/A'')))"

definition loop_body :: "platform \<Rightarrow> json \<Rightarrow> columns \<Rightarrow> py_error + columns" where
  "loop_body P entry cols =
     and_then (getitem entry ''dt'') (\<lambda>dt.
     and_then (fromtimestamp P dt) (\<lambda>dt_object.
     and_then (getitem entry ''main'') (\<lambda>m1.
     and_then (getitem m1 ''temp'') (\<lambda>temp.
     and_then (getitem entry ''main'') (\<lambda>m2.
     and_then (getitem m2 ''feels_like'') (\<lambda>feels_like.
     and_then (getitem entry ''main'') (\<lambda>m3.
     and_then (getitem m3 ''humidity'') (\<lambda>humidity.
     and_then (getitem entry ''wind'') (\<lambda>wnd.
     and_then (getitem wnd ''speed'') (\<lambda>speed.
     and_then (weather_label entry) (\<lambda>label.
     Inr \<lparr>timestamps = timestamps cols @ [dt_object],
          temperatures = temperatures cols @ [temp],
          feels_like_temps = feels_like_temps cols @ [feels_like],
          humidities = humidities cols @ [humidity],
          wind_speeds = wind_speeds cols @ [speed],
          weather_descriptions_main = weather_descriptions_main cols @ [label]\<rparr>)))))))))))"

fun for_loop :: "platform \<Rightarrow> json list \<Rightarrow> columns \<Rightarrow> py_error + columns" where
  "for_loop P [] cols = Inr cols"
| "for_loop P (entry # rest) cols = and_then (loop_body P entry cols) (for_loop P rest)"

definition empty_columns :: columns where
  "empty_columns =
     \<lparr>timestamps = [], temperatures = [], feels_like_temps = [], humidities = [],
      wind_speeds = [], weather_descriptions_main = []\<rparr>"

text \<open>The test \<^verbatim>\<open>not data or "list" not in data\<close>; the membership test can raise.\<close>

definition invalid_or_empty :: "json \<Rightarrow> py_error + bool" where
  "invalid_or_empty data =
     (if \<not> truthy data then Inr True
      else and_then (py_in ''list'' data) (\<lambda>found. Inr (\<not> found)))"

text \<open>
  \<^verbatim>\<open>process_forecast_data(data)\<close>: \<open>Inr None\<close> is the return of \<^verbatim>\<open>None\<close>,
  \<open>Inr (Some cols)\<close> the return of the tuple, \<open>Inl e\<close> the exception that leaves the
  function.
\<close>

definition process_forecast_data ::
  "platform \<Rightarrow> json \<Rightarrow> world \<Rightarrow> world \<times> (py_error + columns option)" where
  "process_forecast_data P data w =
     (case invalid_or_empty data of
        Inl e \<Rightarrow> (w, Inl e)
      | Inr True \<Rightarrow>
          (print_line ''Error: Invalid or empty data received from API.'' w, Inr None)
      | Inr False \<Rightarrow>
          (w, and_then (getitem data ''list'') (\<lambda>lst.
              and_then (py_iter lst) (\<lambda>entries.
              and_then (for_loop P entries empty_columns) (\<lambda>cols.
              Inr (Some cols))))))"

section \<open>Statements that change the world or raise\<close>

text \<open>
  A statement takes the world and gives the world it leaves, with its value or the
  exception it raises. \<open>seq\<close> runs one statement after another and stops at an
  exception, keeping what was printed and written before it.
\<close>

type_synonym 'a stmt = "world \<Rightarrow> world \<times> (py_error + 'a)"

definition seq :: "'a stmt \<Rightarrow> ('a \<Rightarrow> 'b stmt) \<Rightarrow> 'b stmt" where
  "seq m f w = (case m w of (w1, Inl e) \<Rightarrow> (w1, Inl e) | (w1, Inr v) \<Rightarrow> f v w1)"

definition say :: "string \<Rightarrow> unit stmt" where
  "say s w = (print_line s w, Inr ())"

definition returns :: "'a \<Rightarrow> 'a stmt" where
  "returns v w = (w, Inr v)"

definition raises :: "py_error \<Rightarrow> 'a stmt" where
  "raises e w = (w, Inl e)"

section \<open>Credential resolution\<close>

text \<open>The characters below 256 that \<^verbatim>\<open>str.strip()\<close> removes.\<close>

definition isspace :: "char \<Rightarrow> bool" where
  "isspace c = (of_char c \<in> {9, 10, 11, 12, 13, 28, 29, 30, 31, 32, 133, 160 :: nat})"

definition strip :: "string \<Rightarrow> string" where
  "strip s = rev (dropWhile isspace (rev (dropWhile isspace s)))"

text \<open>\<^verbatim>\<open>input(prompt)\<close> writes the prompt and reads a line; at end of input it raises.\<close>

definition input_line :: "platform \<Rightarrow> string \<Rightarrow> string stmt" where
  "input_line P prompt w =
     (let w1 = w\<lparr>stdout := stdout w @ [prompt]\<rparr>
      in case typed_line P of None \<Rightarrow> (w1, Inl EOFError) | Some l \<Rightarrow> (w1, Inr l))"

text \<open>\<^verbatim>\<open>not api_key\<close> for the value of \<^verbatim>\<open>os.getenv\<close>: unset, or the empty string.\<close>

definition unset_or_empty :: "string option \<Rightarrow> bool" where
  "unset_or_empty v = (case v of None \<Rightarrow> True | Some s \<Rightarrow> s = [])"

definition get_api_key :: "platform \<Rightarrow> string stmt" where
  "get_api_key P =
     seq (case getenv P ''OPENWEATHERMAP_API_KEY'' of
            None \<Rightarrow>
              seq (say ''OpenWeatherMap API key not found in .env file or environment variables.'') (\<lambda>_.
              seq (input_line P ''Please enter your OpenWeatherMap API key: '') (\<lambda>l.
              returns (strip l)))
          | Some k \<Rightarrow>
              if k = []
              then seq (say ''OpenWeatherMap API key not found in .env file or environment variables.'') (\<lambda>_.
                   seq (input_line P ''Please enter your OpenWeatherMap API key: '') (\<lambda>l.
                   returns (strip l)))
              else returns k) (\<lambda>api_key.
     if api_key = []
     then seq (say ''API key is required to run the script. Exiting.'') (\<lambda>_.
          raises SystemExit)
     else returns api_key)"

section \<open>Retrieval\<close>

text \<open>The subclass relation of the exception classes that the handlers name.\<close>

fun is_RequestException :: "exc_class \<Rightarrow> bool" where
  "is_RequestException HTTPError = True"
| "is_RequestException ConnectionError = True"
| "is_RequestException Timeout = True"
| "is_RequestException OtherRequestException = True"
| "is_RequestException RequestsJSONDecodeError = True"
| "is_RequestException JSONDecodeError = False"
| "is_RequestException OtherException = False"

fun is_JSONDecodeError :: "exc_class \<Rightarrow> bool" where
  "is_JSONDecodeError RequestsJSONDecodeError = True"
| "is_JSONDecodeError JSONDecodeError = True"
| "is_JSONDecodeError HTTPError = False"
| "is_JSONDecodeError ConnectionError = False"
| "is_JSONDecodeError Timeout = False"
| "is_JSONDecodeError OtherRequestException = False"
| "is_JSONDecodeError OtherException = False"

text \<open>\<^verbatim>\<open>response.raise_for_status()\<close> raises for the statuses 400 to 599.\<close>

definition raise_for_status :: "response \<Rightarrow> exc option" where
  "raise_for_status r =
     (if 400 \<le> status_code r \<and> status_code r < 600
      then Some \<lparr>cls = HTTPError, msg = http_error_text r\<rparr> else None)"

text \<open>
  The body of the \<^verbatim>\<open>try\<close>: the response, once \<^verbatim>\<open>requests.get\<close> has returned and the
  name \<^verbatim>\<open>response\<close> is bound, and the value returned or the exception raised.
\<close>

definition try_body :: "attempt \<Rightarrow> response option \<times> (exc + json)" where
  "try_body a =
     (case a of
        GetRaises e \<Rightarrow> (None, Inl e)
      | GetReturns r \<Rightarrow>
          (Some r, case raise_for_status r of Some e \<Rightarrow> Inl e | None \<Rightarrow> body r))"

definition fetch_weather_data :: "platform \<Rightarrow> string \<Rightarrow> string \<Rightarrow> json option stmt" where
  "fetch_weather_data P api_key city_name w =
     (let params = [(''q'', city_name), (''appid'', api_key), (''units'', ''metric'')];
          w1 = w\<lparr>requests_sent := requests_sent w @ [(BASE_API_URL, params)]\<rparr>
      in case try_body (http_get P BASE_API_URL params) of
           (bound, Inr d) \<Rightarrow> (w1, Inr (Some d))
         | (bound, Inl e) \<Rightarrow>
             if cls e = HTTPError then
               (case bound of
                  None \<Rightarrow> (w1, Inl UnboundLocalError)
                | Some r \<Rightarrow>
                    if status_code r = 401 then
                      (print_line (''HTTP Error: '' @ msg e @ '' - Invalid API key or key not activated yet.'') w1,
                       Inr None)
                    else if status_code r = 404 then
                      (print_line (''HTTP Error: '' @ msg e @ '' - City not found: '' @ city_name) w1,
                       Inr None)
                    else
                      (print_line (''HTTP Error: '' @ msg e) w1, Inr None))
             else if is_RequestException (cls e) then
               (print_line (''Request Error: '' @ msg e) w1, Inr None)
             else if is_JSONDecodeError (cls e) then
               (print_line ''Error: Failed to decode JSON response from API.'' w1, Inr None)
             else (w1, Inl (Raised e)))"

section \<open>Rendering\<close>

definition ensure_plots_dir :: "unit stmt" where
  "ensure_plots_dir w =
     (if fs w PLOTS_DIR = None
      then (print_line (''Created directory: '' @ PLOTS_DIR)
              (w\<lparr>fs := (fs w)(PLOTS_DIR \<mapsto> Directory)\<rparr>), Inr ())
      else (w, Inr ()))"

text \<open>\<^verbatim>\<open>os.path.join(PLOTS_DIR, name)\<close>, with the separator of a POSIX system.\<close>

definition plot_path :: "string \<Rightarrow> string" where
  "plot_path name = PLOTS_DIR @ ''/'' @ name"

text \<open>
  \<^verbatim>\<open>plt.savefig(filename)\<close> opens the file for writing: the directory must be there, and
  an existing file is overwritten.
\<close>

definition savefig :: "string \<Rightarrow> figure \<Rightarrow> unit stmt" where
  "savefig name fig w =
     (case fs w PLOTS_DIR of
        None \<Rightarrow> (w, Inl FileNotFoundError)
      | Some Directory \<Rightarrow>
          if fs w (plot_path name) = Some Directory then (w, Inl IsADirectoryError)
          else (w\<lparr>fs := (fs w)(plot_path name \<mapsto> Image fig)\<rparr>, Inr ())
      | Some (Image f) \<Rightarrow> (w, Inl NotADirectoryError)
      | Some OtherFile \<Rightarrow> (w, Inl NotADirectoryError))"

definition show_figure :: "figure \<Rightarrow> unit stmt" where
  "show_figure fig w = (w\<lparr>shown := shown w @ [fig]\<rparr>, Inr ())"

text \<open>\<^verbatim>\<open>sns.lineplot(x=..., y=...)\<close>: the library draws the line, or raises and leaves
  the rendering operation before anything is saved.\<close>

definition sns_lineplot :: "platform \<Rightarrow> datetime list \<Rightarrow> json list \<Rightarrow> unit stmt" where
  "sns_lineplot P x y w =
     (case lineplot P x y of None \<Rightarrow> (w, Inr ()) | Some e \<Rightarrow> (w, Inl e))"

definition plot_temperature_forecast ::
  "platform \<Rightarrow> datetime list \<Rightarrow> json list \<Rightarrow> json list \<Rightarrow> string \<Rightarrow> unit stmt" where
  "plot_temperature_forecast P ts temps feels_like city_name =
     (let fig = TemperatureFigure ts temps feels_like
                  (''5-Day Temperature & Feels Like Forecast for '' @ title P city_name)
      in seq (sns_lineplot P ts temps) (\<lambda>_.
         seq (sns_lineplot P ts feels_like) (\<lambda>_.
         seq (savefig ''temperature_forecast.png'' fig) (\<lambda>_.
         seq (say (''Saved temperature forecast plot to '' @ plot_path ''temperature_forecast.png'')) (\<lambda>_.
         show_figure fig)))))"

definition plot_humidity_forecast ::
  "platform \<Rightarrow> datetime list \<Rightarrow> json list \<Rightarrow> string \<Rightarrow> unit stmt" where
  "plot_humidity_forecast P ts hums city_name =
     (let fig = HumidityFigure ts hums (''5-Day Humidity Forecast for '' @ title P city_name)
      in seq (sns_lineplot P ts hums) (\<lambda>_.
         seq (savefig ''humidity_forecast.png'' fig) (\<lambda>_.
         seq (say (''Saved humidity forecast plot to '' @ plot_path ''humidity_forecast.png'')) (\<lambda>_.
         show_figure fig))))"

definition plot_wind_speed_forecast ::
  "platform \<Rightarrow> datetime list \<Rightarrow> json list \<Rightarrow> string \<Rightarrow> unit stmt" where
  "plot_wind_speed_forecast P ts winds city_name =
     (let fig = WindSpeedFigure ts winds (''5-Day Wind Speed Forecast for '' @ title P city_name)
      in seq (sns_lineplot P ts winds) (\<lambda>_.
         seq (savefig ''wind_speed_forecast.png'' fig) (\<lambda>_.
         seq (say (''Saved wind speed forecast plot to '' @ plot_path ''wind_speed_forecast.png'')) (\<lambda>_.
         show_figure fig))))"

text \<open>\<^verbatim>\<open>Counter(labels)\<close> hashes every label: a list or a dict among them is a type
  error.\<close>

fun hashable :: "json \<Rightarrow> bool" where
  "hashable (JList xs) = False"
| "hashable (JObj kvs) = False"
| "hashable JNull = True"
| "hashable (JBool b) = True"
| "hashable (JInt i) = True"
| "hashable (JFloat f) = True"
| "hashable (JStr s) = True"

definition plot_weather_conditions_pie :: "platform \<Rightarrow> json list \<Rightarrow> string \<Rightarrow> unit stmt" where
  "plot_weather_conditions_pie P labels city_name =
     (if labels = [] then say ''No weather descriptions to plot for pie chart.''
      else if \<not> list_all hashable labels then raises TypeError
      else
        (let fig = ConditionsPie labels
                     (''Distribution of Weather Conditions for '' @ title P city_name @ '' (Next 5 Days)'')
         in seq (savefig ''weather_conditions_pie_chart.png'' fig) (\<lambda>_.
            seq (say (''Saved weather conditions pie chart to '' @ plot_path ''weather_conditions_pie_chart.png'')) (\<lambda>_.
            show_figure fig))))"

section \<open>The pipeline\<close>

text \<open>The four rendering calls of \<^verbatim>\<open>main\<close> and its two closing lines.\<close>

definition render_all :: "platform \<Rightarrow> columns \<Rightarrow> string \<Rightarrow> unit stmt" where
  "render_all P cols city_name =
     seq (plot_temperature_forecast P (timestamps cols) (temperatures cols)
            (feels_like_temps cols) city_name) (\<lambda>_.
     seq (plot_humidity_forecast P (timestamps cols) (humidities cols) city_name) (\<lambda>_.
     seq (plot_wind_speed_forecast P (timestamps cols) (wind_speeds cols) city_name) (\<lambda>_.
     seq (plot_weather_conditions_pie P (weather_descriptions_main cols) city_name) (\<lambda>_.
     seq (say (CHR 0x0A # ''--- All visualizations saved in '' @ [CHR 0x27] @ PLOTS_DIR
               @ [CHR 0x27] @ '' directory ---'')) (\<lambda>_.
     say ''--- Script finished ---'')))))"

text \<open>
  \<^verbatim>\<open>main()\<close>. The test \<^verbatim>\<open>if weather_data:\<close> fails for \<^verbatim>\<open>None\<close> and for a response that
  is false (an empty dict or list, zero); \<^verbatim>\<open>if not processed_data:\<close> holds for \<^verbatim>\<open>None\<close>
  only, a tuple of six lists being true.
\<close>

definition main :: "platform \<Rightarrow> unit stmt" where
  "main P =
     seq (say ''--- Weather Data Visualizer ---'') (\<lambda>_.
     seq (get_api_key P) (\<lambda>api_key.
     case getenv P ''CITY_NAME'' of
       None \<Rightarrow> say ''City name cannot be empty. Exiting.''
     | Some city_name \<Rightarrow>
         if city_name = [] then say ''City name cannot be empty. Exiting.''
         else
           seq (say (CHR 0x0A # ''Fetching weather data for '' @ title P city_name @ ''...'')) (\<lambda>_.
           seq (fetch_weather_data P api_key city_name) (\<lambda>weather_data.
           case weather_data of
             None \<Rightarrow>
               say (''Could not retrieve weather data for '' @ title P city_name
                    @ ''. Please check the city name and your API key.'')
           | Some d \<Rightarrow>
               if truthy d then
                 seq (say ''Weather data fetched successfully.'') (\<lambda>_.
                 seq (process_forecast_data P d) (\<lambda>processed_data.
                 case processed_data of
                   None \<Rightarrow> say ''Failed to process weather data. Exiting.''
                 | Some cols \<Rightarrow>
                     seq ensure_plots_dir (\<lambda>_.
                     seq (say (CHR 0x0A # ''Generating and saving plots...'')) (\<lambda>_.
                     render_all P cols city_name))))
               else
                 say (''Could not retrieve weather data for '' @ title P city_name
                      @ ''. Please check the city name and your API key.'')))))"

section \<open>Well-formed and malformed responses\<close>

text \<open>
  A valid response is the body the forecast endpoint documents: a dict with a list
  under \<open>list\<close>, each entry a dict with an integer \<open>dt\<close> that the platform can convert,
  a dict \<open>main\<close> with \<open>temp\<close>, \<open>feels_like\<close> and \<open>humidity\<close>, a dict \<open>wind\<close> with
  \<open>speed\<close>, and a list \<open>weather\<close> that is empty or starts with a dict holding \<open>main\<close>.
\<close>

definition has_key :: "json \<Rightarrow> string \<Rightarrow> bool" where
  "has_key v k = (case v of JObj kvs \<Rightarrow> map_of kvs k \<noteq> None | _ \<Rightarrow> False)"

definition is_dict :: "json \<Rightarrow> bool" where
  "is_dict v = (case v of JObj kvs \<Rightarrow> True | _ \<Rightarrow> False)"

definition converts :: "platform \<Rightarrow> json \<Rightarrow> bool" where
  "converts P v = (case fromtimestamp P v of Inl e \<Rightarrow> False | Inr d \<Rightarrow> True)"

definition valid_conditions :: "json \<Rightarrow> bool" where
  "valid_conditions v =
     (case v of
        JList [] \<Rightarrow> True
      | JList (c # cs) \<Rightarrow> has_key c ''main''
      | _ \<Rightarrow> False)"

definition valid_entry :: "platform \<Rightarrow> json \<Rightarrow> bool" where
  "valid_entry P entry =
     (case entry of
        JObj kvs \<Rightarrow>
          (case map_of kvs ''dt'' of Some (JInt t) \<Rightarrow> converts P (JInt t) | _ \<Rightarrow> False)
          \<and> (case map_of kvs ''main'' of
                Some m \<Rightarrow> has_key m ''temp'' \<and> has_key m ''feels_like'' \<and> has_key m ''humidity''
              | None \<Rightarrow> False)
          \<and> (case map_of kvs ''wind'' of Some wnd \<Rightarrow> has_key wnd ''speed'' | None \<Rightarrow> False)
          \<and> (case map_of kvs ''weather'' of Some c \<Rightarrow> valid_conditions c | None \<Rightarrow> False)
      | _ \<Rightarrow> False)"

text \<open>
  An entry that lacks one of the keys \<open>dt\<close>, \<open>main\<close>, \<open>wind\<close>, \<open>weather\<close>, or whose
  \<open>main\<close> or \<open>wind\<close> dict lacks one of its fields.
\<close>

definition lacks_key :: "json \<Rightarrow> bool" where
  "lacks_key entry =
     (case entry of
        JObj kvs \<Rightarrow>
          map_of kvs ''dt'' = None \<or> map_of kvs ''main'' = None
          \<or> map_of kvs ''wind'' = None \<or> map_of kvs ''weather'' = None
          \<or> (case map_of kvs ''main'' of
                Some (JObj m) \<Rightarrow>
                  map_of m ''temp'' = None \<or> map_of m ''feels_like'' = None
                  \<or> map_of m ''humidity'' = None
              | _ \<Rightarrow> False)
          \<or> (case map_of kvs ''wind'' of
                Some (JObj wnd) \<Rightarrow> map_of wnd ''speed'' = None
              | _ \<Rightarrow> False)
      | _ \<Rightarrow> False)"

text \<open>
  What an entry holds has the expected shape as far as it goes: its \<open>dt\<close>, when
  present, converts, and its \<open>main\<close> and \<open>wind\<close>, when present, are dicts.
\<close>

definition shaped :: "platform \<Rightarrow> json \<Rightarrow> bool" where
  "shaped P entry =
     (case entry of
        JObj kvs \<Rightarrow>
          (case map_of kvs ''dt'' of Some v \<Rightarrow> converts P v | None \<Rightarrow> True)
          \<and> (case map_of kvs ''main'' of Some m \<Rightarrow> is_dict m | None \<Rightarrow> True)
          \<and> (case map_of kvs ''wind'' of Some wnd \<Rightarrow> is_dict wnd | None \<Rightarrow> True)
      | _ \<Rightarrow> False)"

definition required_keys :: "string list" where
  "required_keys =
     [''dt'', ''main'', ''wind'', ''weather'', ''temp'', ''feels_like'', ''humidity'', ''speed'']"

section \<open>A platform to run the program on\<close>

text \<open>
  A platform whose local time lies a fixed number of seconds east of UTC, with the
  range of \<^verbatim>\<open>datetime\<close> (the years 1 to 9999). A float is rounded to the microsecond, half
  to even, in exact arithmetic. \<open>ascii_title\<close> is \<^verbatim>\<open>str.title\<close> on ASCII text. Its
  plotting library draws a line through any values it can hash and raises a type
  error on a list or a dict among them.
\<close>

definition in_datetime_range :: "int \<Rightarrow> bool" where
  "in_datetime_range s = (- 62135596800 \<le> s \<and> s \<le> 253402300799)"

definition zone_localtime :: "int \<Rightarrow> int \<Rightarrow> py_error + datetime" where
  "zone_localtime offset t =
     (if in_datetime_range (t + offset) then Inr (Datetime (t + offset) 0) else Inl ValueError)"

definition half_even :: "rat \<Rightarrow> int" where
  "half_even x =
     (let f = \<lfloor>x\<rfloor>; d = x - of_int f
      in if d < 1 / 2 then f else if 1 / 2 < d then f + 1 else if even f then f else f + 1)"

definition zone_localtime_float :: "int \<Rightarrow> pyfloat \<Rightarrow> py_error + datetime" where
  "zone_localtime_float offset f =
     (case f of
        Finite r \<Rightarrow>
          (let us = half_even (r * 1000000); s = us div 1000000 + offset
           in if in_datetime_range s then Inr (Datetime s (nat (us mod 1000000)))
              else Inl ValueError)
      | PosInf \<Rightarrow> Inl OverflowError
      | NegInf \<Rightarrow> Inl OverflowError
      | NaN \<Rightarrow> Inl ValueError)"

definition is_ascii_lower :: "char \<Rightarrow> bool" where
  "is_ascii_lower c = (97 \<le> (of_char c :: nat) \<and> (of_char c :: nat) \<le> 122)"

definition is_ascii_upper :: "char \<Rightarrow> bool" where
  "is_ascii_upper c = (65 \<le> (of_char c :: nat) \<and> (of_char c :: nat) \<le> 90)"

fun title_from :: "bool \<Rightarrow> string \<Rightarrow> string" where
  "title_from after_cased [] = []"
| "title_from after_cased (c # s) =
     (if is_ascii_lower c then
        (if after_cased then c else char_of (of_char c - (32 :: nat))) # title_from True s
      else if is_ascii_upper c then
        (if after_cased then char_of (of_char c + (32 :: nat)) else c) # title_from True s
      else c # title_from False s)"

definition ascii_title :: "string \<Rightarrow> string" where
  "ascii_title s = title_from False s"

definition zone_platform ::
  "int \<Rightarrow> (string \<times> string) list \<Rightarrow> string option \<Rightarrow> attempt \<Rightarrow> platform" where
  "zone_platform offset env line a =
     \<lparr>getenv = map_of env, typed_line = line, http_get = (\<lambda>url params. a),
      localtime = zone_localtime offset, localtime_float = zone_localtime_float offset,
      title = ascii_title,
      lineplot = (\<lambda>x y. if list_all hashable y then None else Some TypeError)\<rparr>"

definition blank_world :: world where
  "blank_world = \<lparr>stdout = [], fs = (\<lambda>path. None), requests_sent = [], shown = []\<rparr>"

definition ok_response :: "json \<Rightarrow> attempt" where
  "ok_response d = GetReturns \<lparr>status_code = 200, http_error_text = [], body = Inr d\<rparr>"

definition forecast_entry :: "int \<Rightarrow> json \<Rightarrow> json \<Rightarrow> json" where
  "forecast_entry t temp conditions =
     JObj [(''dt'', JInt t),
           (''main'', JObj [(''temp'', temp), (''feels_like'', temp), (''humidity'', JInt 50)]),
           (''wind'', JObj [(''speed'', JInt 3)]),
           (''weather'', conditions)]"

section \<open>Rows and columns\<close>

text \<open>
  Six columns are rectangular of height \<open>n\<close> when each holds \<open>n\<close> values; \<open>row_at\<close>
  is the row at one index, as six columns of height one; \<open>cat_columns\<close> sets one
  block of rows under another.
\<close>

definition rectangular :: "columns \<Rightarrow> nat \<Rightarrow> bool" where
  "rectangular cols n =
     (length (timestamps cols) = n \<and> length (temperatures cols) = n
      \<and> length (feels_like_temps cols) = n \<and> length (humidities cols) = n
      \<and> length (wind_speeds cols) = n \<and> length (weather_descriptions_main cols) = n)"

definition row_at :: "columns \<Rightarrow> nat \<Rightarrow> columns" where
  "row_at cols i =
     \<lparr>timestamps = [timestamps cols ! i],
      temperatures = [temperatures cols ! i],
      feels_like_temps = [feels_like_temps cols ! i],
      humidities = [humidities cols ! i],
      wind_speeds = [wind_speeds cols ! i],
      weather_descriptions_main = [weather_descriptions_main cols ! i]\<rparr>"

definition cat_columns :: "columns \<Rightarrow> columns \<Rightarrow> columns" where
  "cat_columns a b =
     \<lparr>timestamps = timestamps a @ timestamps b,
      temperatures = temperatures a @ temperatures b,
      feels_like_temps = feels_like_temps a @ feels_like_temps b,
      humidities = humidities a @ humidities b,
      wind_speeds = wind_speeds a @ wind_speeds b,
      weather_descriptions_main = weather_descriptions_main a @ weather_descriptions_main b\<rparr>"

section \<open>A run to evaluate\<close>

text \<open>
  The environment gives the key \<open>ABC\<close> and the city \<open>Paris\<close>; the endpoint answers with
  three entries three hours apart, of temperatures 10, 12 and 9; the local time is one
  hour east of UTC.
\<close>

definition scenario_env :: "(string \<times> string) list" where
  "scenario_env = [(''OPENWEATHERMAP_API_KEY'', ''ABC''), (''CITY_NAME'', ''Paris'')]"

definition scenario_entries :: "json list" where
  "scenario_entries =
     [forecast_entry 1700000000 (JInt 10) (JList [JObj [(''main'', JStr ''Rain'')]]),
      forecast_entry 1700010800 (JInt 12) (JList [JObj [(''main'', JStr ''Clear'')]]),
      forecast_entry 1700021600 (JInt 9) (JList [])]"

definition scenario_response :: json where
  "scenario_response = JObj [(''cod'', JStr ''200''), (''list'', JList scenario_entries)]"

definition scenario_platform :: platform where
  "scenario_platform = zone_platform 3600 scenario_env None (ok_response scenario_response)"

text \<open>The six columns of that run.\<close>

definition scenario_columns :: columns where
  "scenario_columns =
     \<lparr>timestamps = [Datetime 1700003600 0, Datetime 1700014400 0, Datetime 1700025200 0],
      temperatures = [JInt 10, JInt 12, JInt 9],
      feels_like_temps = [JInt 10, JInt 12, JInt 9],
      humidities = [JInt 50, JInt 50, JInt 50],
      wind_speeds = [JInt 3, JInt 3, JInt 3],
      weather_descriptions_main = [JStr ''Rain'', JStr ''Clear'', JStr ''N/A'']\<rparr>"

text \<open>A platform on which nothing is configured and the network is down.\<close>

definition offline_platform :: "int \<Rightarrow> platform" where
  "offline_platform offset =
     zone_platform offset [] None (GetRaises \<lparr>cls = ConnectionError, msg = ''unreachable''\<rparr>)"

text \<open>A forecast list whose second entry has no \<open>wind\<close> key.\<close>

definition entries_without_wind :: "json list" where
  "entries_without_wind =
     [forecast_entry 1700000000 (JInt 10) (JList []),
      JObj [(''dt'', JInt 1700010800),
            (''main'', JObj [(''temp'', JInt 12), (''feels_like'', JInt 11), (''humidity'', JInt 50)]),
            (''weather'', JList [])]]"

section \<open>The request and its answers\<close>

text \<open>
  The query of the one request, and the world once \<^verbatim>\<open>requests.get\<close> has been called
  with it.
\<close>

definition query :: "string \<Rightarrow> string \<Rightarrow> (string \<times> string) list" where
  "query api_key city_name = [(''q'', city_name), (''appid'', api_key), (''units'', ''metric'')]"

definition after_request :: "string \<Rightarrow> string \<Rightarrow> world \<Rightarrow> world" where
  "after_request api_key city_name w =
     w\<lparr>requests_sent := requests_sent w @ [(BASE_API_URL, query api_key city_name)]\<rparr>"

text \<open>
  Answers of the endpoint: an error status, and a success status with a body that is
  not JSON, on which \<^verbatim>\<open>response.json()\<close> raises the HTTP library's decode error; and the
  platform of the scenario with the endpoint answering so.
\<close>

definition http_failure :: "int \<Rightarrow> string \<Rightarrow> attempt" where
  "http_failure status text =
     GetReturns \<lparr>status_code = status, http_error_text = text,
                 body = Inr (JObj [(''cod'', JInt status)])\<rparr>"

definition garbled_body :: attempt where
  "garbled_body =
     GetReturns \<lparr>status_code = 200, http_error_text = [],
                 body = Inl \<lparr>cls = RequestsJSONDecodeError,
                             msg = ''Expecting value: line 1 column 1 (char 0)''\<rparr>\<rparr>"

definition answering :: "attempt \<Rightarrow> platform" where
  "answering a = zone_platform 3600 scenario_env None a"

section \<open>What the rendering stage writes\<close>

text \<open>The four figures that \<^verbatim>\<open>main\<close> has drawn from the six columns.\<close>

definition temperature_figure :: "platform \<Rightarrow> columns \<Rightarrow> string \<Rightarrow> figure" where
  "temperature_figure P cols city_name =
     TemperatureFigure (timestamps cols) (temperatures cols) (feels_like_temps cols)
       (''5-Day Temperature & Feels Like Forecast for '' @ title P city_name)"

definition humidity_figure :: "platform \<Rightarrow> columns \<Rightarrow> string \<Rightarrow> figure" where
  "humidity_figure P cols city_name =
     HumidityFigure (timestamps cols) (humidities cols)
       (''5-Day Humidity Forecast for '' @ title P city_name)"

definition wind_speed_figure :: "platform \<Rightarrow> columns \<Rightarrow> string \<Rightarrow> figure" where
  "wind_speed_figure P cols city_name =
     WindSpeedFigure (timestamps cols) (wind_speeds cols)
       (''5-Day Wind Speed Forecast for '' @ title P city_name)"

definition conditions_pie :: "platform \<Rightarrow> columns \<Rightarrow> string \<Rightarrow> figure" where
  "conditions_pie P cols city_name =
     ConditionsPie (weather_descriptions_main cols)
       (''Distribution of Weather Conditions for '' @ title P city_name @ '' (Next 5 Days)'')"

text \<open>
  The columns are drawable when the plotting library draws each of the four lines of
  the three line charts. The file names of the four charts. A world is ready for
  rendering when the destination is a directory and no chart path is one; it is usable
  by \<^verbatim>\<open>main\<close> when the destination is absent or a directory and no chart path is a
  directory.
\<close>

definition drawable :: "platform \<Rightarrow> columns \<Rightarrow> bool" where
  "drawable P cols =
     (lineplot P (timestamps cols) (temperatures cols) = None
      \<and> lineplot P (timestamps cols) (feels_like_temps cols) = None
      \<and> lineplot P (timestamps cols) (humidities cols) = None
      \<and> lineplot P (timestamps cols) (wind_speeds cols) = None)"

definition chart_names :: "string list" where
  "chart_names = [''temperature_forecast.png'', ''humidity_forecast.png'',
                  ''wind_speed_forecast.png'', ''weather_conditions_pie_chart.png'']"

definition ready :: "world \<Rightarrow> bool" where
  "ready w = (fs w PLOTS_DIR = Some Directory
              \<and> list_all (\<lambda>n. fs w (plot_path n) \<noteq> Some Directory) chart_names)"

definition usable :: "world \<Rightarrow> bool" where
  "usable w = ((fs w PLOTS_DIR = None \<or> fs w PLOTS_DIR = Some Directory)
               \<and> list_all (\<lambda>n. fs w (plot_path n) \<noteq> Some Directory) chart_names)"

text \<open>
  The world after the three line charts, after the pie chart step, and after the two
  closing lines of \<^verbatim>\<open>main\<close>.
\<close>

definition three_charts :: "platform \<Rightarrow> columns \<Rightarrow> string \<Rightarrow> world \<Rightarrow> world" where
  "three_charts P cols c w =
     w\<lparr>fs := (fs w)(plot_path ''temperature_forecast.png'' \<mapsto> Image (temperature_figure P cols c),
                    plot_path ''humidity_forecast.png'' \<mapsto> Image (humidity_figure P cols c),
                    plot_path ''wind_speed_forecast.png'' \<mapsto> Image (wind_speed_figure P cols c)),
       stdout := stdout w @
         [''Saved temperature forecast plot to '' @ plot_path ''temperature_forecast.png'',
          ''Saved humidity forecast plot to '' @ plot_path ''humidity_forecast.png'',
          ''Saved wind speed forecast plot to '' @ plot_path ''wind_speed_forecast.png''],
       shown := shown w @ [temperature_figure P cols c, humidity_figure P cols c,
                           wind_speed_figure P cols c]\<rparr>"

definition with_pie :: "platform \<Rightarrow> columns \<Rightarrow> string \<Rightarrow> world \<Rightarrow> world" where
  "with_pie P cols c w =
     (if weather_descriptions_main cols = []
      then print_line ''No weather descriptions to plot for pie chart.'' w
      else w\<lparr>fs := (fs w)(plot_path ''weather_conditions_pie_chart.png'' \<mapsto>
                         Image (conditions_pie P cols c)),
             stdout := stdout w @ [''Saved weather conditions pie chart to ''
                                   @ plot_path ''weather_conditions_pie_chart.png''],
             shown := shown w @ [conditions_pie P cols c]\<rparr>)"

definition closing_lines :: "world \<Rightarrow> world" where
  "closing_lines w =
     print_line ''--- Script finished ---''
       (print_line (CHR 0x0A # ''--- All visualizations saved in '' @ [CHR 0x27] @ PLOTS_DIR
                    @ [CHR 0x27] @ '' directory ---'') w)"

section \<open>A run that reaches the transformation\<close>

text \<open>
  The environment provides the key \<open>k\<close> and the city \<open>c\<close>, and the endpoint answers
  the request for them with a success status and the body \<open>d\<close>. Then \<^verbatim>\<open>main\<close> hands
  \<open>d\<close> to \<^verbatim>\<open>process_forecast_data\<close> in the world \<open>before_processing\<close> (two lines printed,
  one request sent), and starts to render in the world \<open>before_rendering\<close> (the
  directory ensured, two more lines printed).
\<close>

definition answers_with :: "platform \<Rightarrow> string \<Rightarrow> string \<Rightarrow> json \<Rightarrow> bool" where
  "answers_with P k c d =
     (getenv P ''OPENWEATHERMAP_API_KEY'' = Some k \<and> k \<noteq> []
      \<and> getenv P ''CITY_NAME'' = Some c \<and> c \<noteq> []
      \<and> (\<exists>r. http_get P BASE_API_URL (query k c) = GetReturns r
               \<and> raise_for_status r = None \<and> body r = Inr d))"

definition before_processing :: "platform \<Rightarrow> string \<Rightarrow> string \<Rightarrow> world \<Rightarrow> world" where
  "before_processing P k c w =
     after_request k c
       (print_line (CHR 0x0A # ''Fetching weather data for '' @ title P c @ ''...'')
          (print_line ''--- Weather Data Visualizer ---'' w))"

definition before_rendering :: "platform \<Rightarrow> string \<Rightarrow> string \<Rightarrow> world \<Rightarrow> world" where
  "before_rendering P k c w =
     print_line (CHR 0x0A # ''Generating and saving plots...'')
       (fst (ensure_plots_dir
          (print_line ''Weather data fetched successfully.'' (before_processing P k c w))))"

text \<open>An entry whose condition list is present and empty.\<close>

definition no_conditions :: "json \<Rightarrow> bool" where
  "no_conditions entry =
     (case entry of JObj kvs \<Rightarrow> map_of kvs ''weather'' = Some (JList []) | _ \<Rightarrow> False)"

section \<open>More responses and worlds to evaluate\<close>

text \<open>
  A response without the key \<open>list\<close>; one whose forecast list is empty; one whose two
  entries have empty condition lists, with the columns it gives one hour east of UTC;
  and the blank world with the destination directory in place.
\<close>

definition without_list :: json where
  "without_list = JObj [(''cod'', JStr ''200''), (''message'', JInt 0)]"

definition empty_forecast :: json where
  "empty_forecast = JObj [(''cod'', JStr ''200''), (''list'', JList [])]"

definition bare_entries :: "json list" where
  "bare_entries =
     [forecast_entry 1700000000 (JInt 10) (JList []),
      forecast_entry 1700010800 (JInt 12) (JList [])]"

definition bare_columns :: columns where
  "bare_columns =
     \<lparr>timestamps = [Datetime 1700003600 0, Datetime 1700014400 0],
      temperatures = [JInt 10, JInt 12], feels_like_temps = [JInt 10, JInt 12],
      humidities = [JInt 50, JInt 50], wind_speeds = [JInt 3, JInt 3],
      weather_descriptions_main = [JStr ''N/A'', JStr ''N/A'']\<rparr>"

definition bare_forecast :: json where
  "bare_forecast = JObj [(''list'', JList bare_entries)]"

definition prepared_world :: world where
  "prepared_world = blank_world\<lparr>fs := (fs blank_world)(PLOTS_DIR \<mapsto> Directory)\<rparr>"

section \<open>Simplification rules\<close>

lemma and_then_Inr [simp]: "and_then (Inr v) f = f v"
  by (simp add: and_then_def)

lemma and_then_Inl [simp]: "and_then (Inl e) f = Inl e"
  by (simp add: and_then_def)

section \<open>The loop, one entry at a time\<close>

lemma cat_columns_assoc: "cat_columns (cat_columns a b) c = cat_columns a (cat_columns b c)"
  by (simp add: cat_columns_def)

lemma cat_columns_empty [simp]: "cat_columns empty_columns r = r" "cat_columns r empty_columns = r"
  by (simp_all add: cat_columns_def empty_columns_def)

lemma and_then_assoc: "and_then (and_then r f) g = and_then r (\<lambda>v. and_then (f v) g)"
  by (cases r) simp_all

lemma loop_body_cat:
  "loop_body P e cols = and_then (loop_body P e empty_columns) (\<lambda>r. Inr (cat_columns cols r))"
  unfolding loop_body_def and_then_assoc
  by (simp add: cat_columns_def empty_columns_def and_then_def split: sum.splits)

lemma loop_body_row:
  "loop_body P e empty_columns = Inr r \<Longrightarrow> rectangular r 1 \<and> row_at r 0 = r"
  unfolding loop_body_def
  by (auto simp add: rectangular_def row_at_def empty_columns_def and_then_def split: sum.splits)

lemma for_loop_cat:
  "for_loop P es cols = and_then (for_loop P es empty_columns) (\<lambda>r. Inr (cat_columns cols r))"
proof (induction es arbitrary: cols)
  case Nil
  show ?case by simp
next
  case (Cons e es)
  show ?case
  proof (cases "loop_body P e empty_columns")
    case (Inl err)
    then show ?thesis using loop_body_cat [of P e cols] by simp
  next
    case (Inr r)
    then have a: "loop_body P e cols = Inr (cat_columns cols r)"
      using loop_body_cat [of P e cols] by simp
    have "for_loop P (e # es) cols = for_loop P es (cat_columns cols r)"
      using a by simp
    also have "\<dots> = and_then (for_loop P es empty_columns)
                        (\<lambda>r'. Inr (cat_columns (cat_columns cols r) r'))"
      by (rule Cons.IH)
    finally have lhs: "for_loop P (e # es) cols = and_then (for_loop P es empty_columns)
                        (\<lambda>r'. Inr (cat_columns cols (cat_columns r r')))"
      by (simp add: cat_columns_assoc)
    have "for_loop P (e # es) empty_columns = for_loop P es r"
      using Inr by simp
    also have "\<dots> = and_then (for_loop P es empty_columns) (\<lambda>r'. Inr (cat_columns r r'))"
      by (rule Cons.IH)
    finally show ?thesis
      unfolding lhs by (simp add: and_then_assoc)
  qed
qed

lemma for_loop_rows:
  "for_loop P es empty_columns = Inr cols \<Longrightarrow>
     rectangular cols (length es)
     \<and> (\<forall>i<length es. loop_body P (es ! i) empty_columns = Inr (row_at cols i))"
proof (induction es arbitrary: cols)
  case Nil
  then show ?case by (simp add: rectangular_def empty_columns_def [symmetric]) (auto simp: empty_columns_def)
next
  case (Cons e es)
  from Cons.prems obtain r where r: "loop_body P e empty_columns = Inr r"
    by (cases "loop_body P e empty_columns") simp_all
  with Cons.prems have "for_loop P es r = Inr cols" by simp
  then obtain r' where r': "for_loop P es empty_columns = Inr r'" and cols: "cols = cat_columns r r'"
    using for_loop_cat [of P es r] by (cases "for_loop P es empty_columns") auto
  from Cons.IH [OF r'] have rect: "rectangular r' (length es)"
    and rows: "\<forall>i<length es. loop_body P (es ! i) empty_columns = Inr (row_at r' i)" by simp_all
  from loop_body_row [OF r] have one: "rectangular r 1" and self: "row_at r 0 = r" by simp_all
  have "rectangular cols (length (e # es))"
    using rect one by (simp add: cols rectangular_def cat_columns_def)
  moreover have "loop_body P ((e # es) ! i) empty_columns = Inr (row_at cols i)"
    if "i < length (e # es)" for i
  proof (cases i)
    case 0
    have "row_at cols 0 = row_at r 0"
      using one by (auto simp add: cols row_at_def cat_columns_def rectangular_def nth_append)
    then show ?thesis using 0 r self by simp
  next
    case (Suc j)
    have "row_at cols (Suc j) = row_at r' j"
      using one by (auto simp add: cols row_at_def cat_columns_def rectangular_def nth_append)
    then show ?thesis using Suc rows that by simp
  qed
  ultimately show ?case by blast
qed

lemma getitem_Some: "map_of kvs k = Some v \<Longrightarrow> getitem (JObj kvs) k = Inr v"
  by simp

lemma getitem_None: "map_of kvs k = None \<Longrightarrow> getitem (JObj kvs) k = Inl (KeyError (JStr k))"
  by simp

lemma has_key_getitem: "has_key v k \<Longrightarrow> \<exists>x. getitem v k = Inr x"
  by (cases v) (auto simp: has_key_def)

lemma valid_conditions_label:
  assumes "map_of kvs ''weather'' = Some c" and "valid_conditions c"
  shows "\<exists>l. weather_label (JObj kvs) = Inr l"
proof (cases c)
  case (JList cs)
  show ?thesis
  proof (cases cs)
    case Nil
    with JList assms(1) show ?thesis by (simp add: weather_label_def)
  next
    case (Cons first rest)
    with JList assms(2) have "has_key first ''main''" by (simp add: valid_conditions_def)
    then obtain l where "getitem first ''main'' = Inr l" using has_key_getitem by blast
    with JList Cons assms(1) show ?thesis by (simp add: weather_label_def)
  qed
qed (use assms(2) in \<open>simp_all add: valid_conditions_def\<close>)

lemma valid_entry_loop_body:
  assumes "valid_entry P e"
  shows "\<exists>r. loop_body P e empty_columns = Inr r"
proof -
  from assms obtain kvs where e: "e = JObj kvs"
    by (cases e) (simp_all add: valid_entry_def)
  from assms e obtain t where dt: "map_of kvs ''dt'' = Some (JInt t)" and cv: "converts P (JInt t)"
    by (auto simp: valid_entry_def split: option.splits json.splits)
  from cv obtain d where d: "fromtimestamp P (JInt t) = Inr d"
    by (auto simp: converts_def split: sum.splits)
  from assms e obtain m where m: "map_of kvs ''main'' = Some m"
    and mk: "has_key m ''temp''" "has_key m ''feels_like''" "has_key m ''humidity''"
    by (auto simp: valid_entry_def split: option.splits)
  from assms e obtain wnd where wnd: "map_of kvs ''wind'' = Some wnd" and wk: "has_key wnd ''speed''"
    by (auto simp: valid_entry_def split: option.splits)
  from assms e obtain c where c: "map_of kvs ''weather'' = Some c" and vc: "valid_conditions c"
    by (auto simp: valid_entry_def split: option.splits)
  from has_key_getitem [OF mk(1)] obtain x1 where x1: "getitem m ''temp'' = Inr x1" ..
  from has_key_getitem [OF mk(2)] obtain x2 where x2: "getitem m ''feels_like'' = Inr x2" ..
  from has_key_getitem [OF mk(3)] obtain x3 where x3: "getitem m ''humidity'' = Inr x3" ..
  from has_key_getitem [OF wk] obtain x4 where x4: "getitem wnd ''speed'' = Inr x4" ..
  from valid_conditions_label [OF c vc] obtain l where l: "weather_label (JObj kvs) = Inr l"
    by blast
  show ?thesis
    unfolding loop_body_def e using dt d m wnd x1 x2 x3 x4 l by simp
qed

lemma valid_entries_for_loop:
  "list_all (valid_entry P) es \<Longrightarrow> \<exists>cols. for_loop P es empty_columns = Inr cols"
proof (induction es)
  case Nil
  show ?case by simp
next
  case (Cons e es)
  then obtain r r' where "loop_body P e empty_columns = Inr r"
    and "for_loop P es empty_columns = Inr r'"
    using valid_entry_loop_body [of P e] by auto
  then show ?case using for_loop_cat [of P es r] by simp
qed

lemma process_with_list:
  "map_of kvs ''list'' = Some lst \<Longrightarrow>
   process_forecast_data P (JObj kvs) w =
     (w, and_then (py_iter lst) (\<lambda>entries.
         and_then (for_loop P entries empty_columns) (\<lambda>cols. Inr (Some cols))))"
proof -
  assume a: "map_of kvs ''list'' = Some lst"
  then have "kvs \<noteq> []" by auto
  moreover from a have "''list'' \<in> set (map fst kvs)"
    by (metis map_of_eq_None_iff option.distinct(1) set_map)
  ultimately show ?thesis using a by (simp add: process_forecast_data_def invalid_or_empty_def)
qed

section \<open>Properties of the program\<close>

subsection \<open>What one turn of the loop reads\<close>

lemma loop_body_fields:
  assumes "loop_body P e empty_columns = Inr r"
  shows "and_then (getitem e ''dt'') (fromtimestamp P) = Inr (timestamps r ! 0)"
    and "and_then (getitem e ''main'') (\<lambda>m. getitem m ''temp'') = Inr (temperatures r ! 0)"
    and "and_then (getitem e ''main'') (\<lambda>m. getitem m ''feels_like'')
           = Inr (feels_like_temps r ! 0)"
    and "and_then (getitem e ''main'') (\<lambda>m. getitem m ''humidity'') = Inr (humidities r ! 0)"
    and "and_then (getitem e ''wind'') (\<lambda>v. getitem v ''speed'') = Inr (wind_speeds r ! 0)"
    and "weather_label e = Inr (weather_descriptions_main r ! 0)"
  using assms unfolding loop_body_def
  by (auto simp add: empty_columns_def and_then_def split: sum.splits)

lemma valid_entry_label:
  assumes "valid_entry P e" and "weather_label e = Inr l"
  shows "\<exists>cs. getitem e ''weather'' = Inr (JList cs)
           \<and> (case cs of [] \<Rightarrow> l = JStr ''N/A''
               | first # rest \<Rightarrow> getitem first ''main'' = Inr l)"
proof -
  from assms(1) obtain kvs where e: "e = JObj kvs"
    by (cases e) (simp_all add: valid_entry_def)
  from assms(1) e obtain c where c: "map_of kvs ''weather'' = Some c" and v: "valid_conditions c"
    by (auto simp: valid_entry_def split: option.splits)
  from v obtain cs where cs: "c = JList cs"
    by (cases c) (simp_all add: valid_conditions_def)
  show ?thesis
  proof (cases cs)
    case Nil
    with c cs e assms(2) show ?thesis by (simp add: weather_label_def)
  next
    case (Cons first rest)
    with c cs e assms(2) show ?thesis by (simp add: weather_label_def)
  qed
qed

subsection \<open>The run of the scenario\<close>

lemmas scenario_defs = scenario_platform_def zone_platform_def zone_localtime_def
  in_datetime_range_def scenario_response_def scenario_entries_def forecast_entry_def

lemma scenario_for_loop:
  "for_loop scenario_platform scenario_entries empty_columns = Inr scenario_columns"
  by (simp add: scenario_defs loop_body_def weather_label_def empty_columns_def
      scenario_columns_def)

lemma scenario_process:
  "process_forecast_data scenario_platform scenario_response w = (w, Inr (Some scenario_columns))"
  using process_with_list [of "[(''cod'', JStr ''200''), (''list'', JList scenario_entries)]"
      "JList scenario_entries" scenario_platform w]
  by (simp add: scenario_response_def scenario_for_loop)

text \<open>
  C2. For every valid response whose forecast list has \<open>N\<close> entries,
  \<^verbatim>\<open>process_forecast_data\<close> returns six sequences, each of length \<open>N\<close>, and for every
  index \<open>i < N\<close> the six values at position \<open>i\<close> are read from the \<open>i\<close>-th entry: the
  time is the conversion of its \<open>dt\<close>, the temperature, the felt temperature and the
  humidity are the fields \<open>temp\<close>, \<open>feels_like\<close> and \<open>humidity\<close> of its \<open>main\<close>, the
  wind speed is the field \<open>speed\<close> of its \<open>wind\<close>, and the label is \<open>N/A\<close> if its
  condition list is empty and the field \<open>main\<close> of the first condition otherwise.
\<close>

theorem six_columns_aligned:
  assumes "map_of kvs ''list'' = Some (JList es)" and "list_all (valid_entry P) es"
  shows "\<exists>cols. process_forecast_data P (JObj kvs) w = (w, Inr (Some cols))
           \<and> rectangular cols (length es)
           \<and> (\<forall>i<length es.
                and_then (getitem (es ! i) ''dt'') (fromtimestamp P)
                  = Inr (timestamps cols ! i)
                \<and> and_then (getitem (es ! i) ''main'') (\<lambda>m. getitem m ''temp'')
                    = Inr (temperatures cols ! i)
                \<and> and_then (getitem (es ! i) ''main'') (\<lambda>m. getitem m ''feels_like'')
                    = Inr (feels_like_temps cols ! i)
                \<and> and_then (getitem (es ! i) ''main'') (\<lambda>m. getitem m ''humidity'')
                    = Inr (humidities cols ! i)
                \<and> and_then (getitem (es ! i) ''wind'') (\<lambda>v. getitem v ''speed'')
                    = Inr (wind_speeds cols ! i)
                \<and> (\<exists>cs. getitem (es ! i) ''weather'' = Inr (JList cs)
                      \<and> (case cs of
                            [] \<Rightarrow> weather_descriptions_main cols ! i = JStr ''N/A''
                          | first # rest \<Rightarrow>
                              getitem first ''main''
                                = Inr (weather_descriptions_main cols ! i))))"
proof -
  from assms(2) obtain cols where c: "for_loop P es empty_columns = Inr cols"
    using valid_entries_for_loop by blast
  have p: "process_forecast_data P (JObj kvs) w = (w, Inr (Some cols))"
    using process_with_list [OF assms(1)] c by simp
  from for_loop_rows [OF c] have rect: "rectangular cols (length es)"
    and rows: "\<forall>i<length es. loop_body P (es ! i) empty_columns = Inr (row_at cols i)"
    by simp_all
  have "and_then (getitem (es ! i) ''dt'') (fromtimestamp P) = Inr (timestamps cols ! i)
        \<and> and_then (getitem (es ! i) ''main'') (\<lambda>m. getitem m ''temp'')
            = Inr (temperatures cols ! i)
        \<and> and_then (getitem (es ! i) ''main'') (\<lambda>m. getitem m ''feels_like'')
            = Inr (feels_like_temps cols ! i)
        \<and> and_then (getitem (es ! i) ''main'') (\<lambda>m. getitem m ''humidity'')
            = Inr (humidities cols ! i)
        \<and> and_then (getitem (es ! i) ''wind'') (\<lambda>v. getitem v ''speed'')
            = Inr (wind_speeds cols ! i)
        \<and> (\<exists>cs. getitem (es ! i) ''weather'' = Inr (JList cs)
              \<and> (case cs of
                    [] \<Rightarrow> weather_descriptions_main cols ! i = JStr ''N/A''
                  | first # rest \<Rightarrow>
                      getitem first ''main'' = Inr (weather_descriptions_main cols ! i)))"
    if i: "i < length es" for i
  proof -
    from rows i have r: "loop_body P (es ! i) empty_columns = Inr (row_at cols i)" by blast
    from assms(2) i have v: "valid_entry P (es ! i)" by (simp add: list_all_length)
    note f = loop_body_fields [OF r]
    from f(6) have l: "weather_label (es ! i) = Inr (weather_descriptions_main cols ! i)"
      by (simp add: row_at_def)
    from f(1-5) valid_entry_label [OF v l] show ?thesis
      by (simp add: row_at_def)
  qed
  with p rect show ?thesis by blast
qed

lemma scenario_entries_valid: "list_all (valid_entry scenario_platform) scenario_entries"
  by (simp add: scenario_entries_def forecast_entry_def valid_entry_def has_key_def
      valid_conditions_def converts_def scenario_platform_def zone_platform_def
      zone_localtime_def in_datetime_range_def)

theorem six_columns_aligned_witness:
  "map_of [(''cod'', JStr ''200''), (''list'', JList scenario_entries)] ''list''
     = Some (JList scenario_entries)
   \<and> list_all (valid_entry scenario_platform) scenario_entries
   \<and> process_forecast_data scenario_platform
        (JObj [(''cod'', JStr ''200''), (''list'', JList scenario_entries)]) blank_world
        = (blank_world, Inr (Some scenario_columns))
   \<and> rectangular scenario_columns 3
   \<and> and_then (getitem (scenario_entries ! 1) ''dt'') (fromtimestamp scenario_platform)
       = Inr (Datetime 1700014400 0)
   \<and> and_then (getitem (scenario_entries ! 1) ''main'') (\<lambda>m. getitem m ''temp'')
       = Inr (JInt 12)
   \<and> and_then (getitem (scenario_entries ! 1) ''main'') (\<lambda>m. getitem m ''feels_like'')
       = Inr (JInt 12)
   \<and> and_then (getitem (scenario_entries ! 1) ''main'') (\<lambda>m. getitem m ''humidity'')
       = Inr (JInt 50)
   \<and> and_then (getitem (scenario_entries ! 1) ''wind'') (\<lambda>v. getitem v ''speed'')
       = Inr (JInt 3)
   \<and> getitem (scenario_entries ! 1) ''weather'' = Inr (JList [JObj [(''main'', JStr ''Clear'')]])
   \<and> getitem (JObj [(''main'', JStr ''Clear'')]) ''main''
       = Inr (weather_descriptions_main scenario_columns ! 1)
   \<and> getitem (scenario_entries ! 2) ''weather'' = Inr (JList [])
   \<and> weather_descriptions_main scenario_columns ! 2 = JStr ''N/A''"
proof -
  have h1: "map_of [(''cod'', JStr ''200''), (''list'', JList scenario_entries)] ''list''
              = Some (JList scenario_entries)"
    by simp
  have p: "process_forecast_data scenario_platform
             (JObj [(''cod'', JStr ''200''), (''list'', JList scenario_entries)]) blank_world
           = (blank_world, Inr (Some scenario_columns))"
    using scenario_process [of blank_world] by (simp add: scenario_response_def)
  have n: "length scenario_entries = 3" by (simp add: scenario_entries_def)
  have w1: "getitem (scenario_entries ! 1) ''weather''
              = Inr (JList [JObj [(''main'', JStr ''Clear'')]])"
    and w2: "getitem (scenario_entries ! 2) ''weather'' = Inr (JList [])"
    by (simp_all add: scenario_entries_def forecast_entry_def)
  from six_columns_aligned [OF h1 scenario_entries_valid, of blank_world]
  obtain cols where c: "process_forecast_data scenario_platform
        (JObj [(''cod'', JStr ''200''), (''list'', JList scenario_entries)]) blank_world
        = (blank_world, Inr (Some cols))"
    and rect: "rectangular cols (length scenario_entries)"
    and rows: "\<forall>i<length scenario_entries.
         and_then (getitem (scenario_entries ! i) ''dt'') (fromtimestamp scenario_platform)
           = Inr (timestamps cols ! i)
         \<and> and_then (getitem (scenario_entries ! i) ''main'') (\<lambda>m. getitem m ''temp'')
             = Inr (temperatures cols ! i)
         \<and> and_then (getitem (scenario_entries ! i) ''main'') (\<lambda>m. getitem m ''feels_like'')
             = Inr (feels_like_temps cols ! i)
         \<and> and_then (getitem (scenario_entries ! i) ''main'') (\<lambda>m. getitem m ''humidity'')
             = Inr (humidities cols ! i)
         \<and> and_then (getitem (scenario_entries ! i) ''wind'') (\<lambda>v. getitem v ''speed'')
             = Inr (wind_speeds cols ! i)
         \<and> (\<exists>cs. getitem (scenario_entries ! i) ''weather'' = Inr (JList cs)
               \<and> (case cs of
                     [] \<Rightarrow> weather_descriptions_main cols ! i = JStr ''N/A''
                   | first # rest \<Rightarrow>
                       getitem first ''main'' = Inr (weather_descriptions_main cols ! i)))"
    by blast
  from c p have e: "cols = scenario_columns" by simp
  from rect have r: "rectangular scenario_columns 3" by (simp add: e n)
  from n have i1: "1 < length scenario_entries" and i2: "2 < length scenario_entries"
    by simp_all
  from rows [rule_format, OF i1] have one: "and_then (getitem (scenario_entries ! 1) ''dt'')
         (fromtimestamp scenario_platform) = Inr (timestamps cols ! 1)
       \<and> and_then (getitem (scenario_entries ! 1) ''main'') (\<lambda>m. getitem m ''temp'')
           = Inr (temperatures cols ! 1)
       \<and> and_then (getitem (scenario_entries ! 1) ''main'') (\<lambda>m. getitem m ''feels_like'')
           = Inr (feels_like_temps cols ! 1)
       \<and> and_then (getitem (scenario_entries ! 1) ''main'') (\<lambda>m. getitem m ''humidity'')
           = Inr (humidities cols ! 1)
       \<and> and_then (getitem (scenario_entries ! 1) ''wind'') (\<lambda>v. getitem v ''speed'')
           = Inr (wind_speeds cols ! 1)
       \<and> (\<exists>cs. getitem (scenario_entries ! 1) ''weather'' = Inr (JList cs)
             \<and> (case cs of
                   [] \<Rightarrow> weather_descriptions_main cols ! 1 = JStr ''N/A''
                 | first # rest \<Rightarrow>
                     getitem first ''main'' = Inr (weather_descriptions_main cols ! 1)))"
    .
  then have f: "and_then (getitem (scenario_entries ! 1) ''dt'')
         (fromtimestamp scenario_platform) = Inr (Datetime 1700014400 0)"
    "and_then (getitem (scenario_entries ! 1) ''main'') (\<lambda>m. getitem m ''temp'')
       = Inr (JInt 12)"
    "and_then (getitem (scenario_entries ! 1) ''main'') (\<lambda>m. getitem m ''feels_like'')
       = Inr (JInt 12)"
    "and_then (getitem (scenario_entries ! 1) ''main'') (\<lambda>m. getitem m ''humidity'')
       = Inr (JInt 50)"
    "and_then (getitem (scenario_entries ! 1) ''wind'') (\<lambda>v. getitem v ''speed'')
       = Inr (JInt 3)"
    by (simp_all add: e scenario_columns_def)
  from one w1 have l1: "getitem (JObj [(''main'', JStr ''Clear'')]) ''main''
       = Inr (weather_descriptions_main scenario_columns ! 1)"
    by (simp add: e)
  from rows [rule_format, OF i2]
  have "\<exists>cs. getitem (scenario_entries ! 2) ''weather'' = Inr (JList cs)
             \<and> (case cs of
                   [] \<Rightarrow> weather_descriptions_main cols ! 2 = JStr ''N/A''
                 | first # rest \<Rightarrow>
                     getitem first ''main'' = Inr (weather_descriptions_main cols ! 2))"
    by blast
  with w2 have l2: "weather_descriptions_main scenario_columns ! 2 = JStr ''N/A''"
    by (simp add: e)
  from h1 scenario_entries_valid p r f w1 l1 w2 l2 show ?thesis by blast
qed

subsection \<open>The time zone\<close>

lemma fromtimestamp_zone:
  "localtime P1 = localtime P2 \<Longrightarrow> localtime_float P1 = localtime_float P2 \<Longrightarrow>
   fromtimestamp P1 v = fromtimestamp P2 v"
  by (cases v) simp_all

lemma loop_body_zone:
  "localtime P1 = localtime P2 \<Longrightarrow> localtime_float P1 = localtime_float P2 \<Longrightarrow>
   loop_body P1 e cols = loop_body P2 e cols"
  by (simp add: loop_body_def fromtimestamp_zone [of P1 P2])

lemma for_loop_zone:
  "localtime P1 = localtime P2 \<Longrightarrow> localtime_float P1 = localtime_float P2 \<Longrightarrow>
   for_loop P1 es cols = for_loop P2 es cols"
proof (induction es arbitrary: cols)
  case Nil
  show ?case by simp
next
  case (Cons e es)
  then show ?case
    by (cases "loop_body P2 e cols") (simp_all add: loop_body_zone [of P1 P2])
qed

text \<open>
  C9, as stated: two runs given the same parsed response produce equal columns. The
  timestamps are local times, so the same response read in two time zones gives two
  different timestamp columns.
\<close>

theorem two_zones_two_results:
  "snd (process_forecast_data (offline_platform 0)
          (JObj [(''list'', JList [forecast_entry 0 (JInt 10) (JList [])])]) blank_world)
     = Inr (Some \<lparr>timestamps = [Datetime 0 0], temperatures = [JInt 10],
                  feels_like_temps = [JInt 10], humidities = [JInt 50], wind_speeds = [JInt 3],
                  weather_descriptions_main = [JStr ''N/A'']\<rparr>)
   \<and> snd (process_forecast_data (offline_platform 3600)
          (JObj [(''list'', JList [forecast_entry 0 (JInt 10) (JList [])])]) blank_world)
     = Inr (Some \<lparr>timestamps = [Datetime 3600 0], temperatures = [JInt 10],
                  feels_like_temps = [JInt 10], humidities = [JInt 50], wind_speeds = [JInt 3],
                  weather_descriptions_main = [JStr ''N/A'']\<rparr>)"
  by (simp add: process_forecast_data_def invalid_or_empty_def loop_body_def weather_label_def empty_columns_def
      offline_platform_def zone_platform_def zone_localtime_def in_datetime_range_def
      forecast_entry_def)

text \<open>
  C9, amended: two runs given the same parsed response, on platforms of the same local
  time zone, return the same result (the same six columns, the same absent result or
  the same exception), whatever else differs between the platforms and whatever was
  printed or written before.
\<close>

theorem same_zone_same_columns:
  assumes "localtime P1 = localtime P2" and "localtime_float P1 = localtime_float P2"
  shows "snd (process_forecast_data P1 data w1) = snd (process_forecast_data P2 data w2)"
proof -
  have "for_loop P1 es empty_columns = for_loop P2 es empty_columns" for es
    using assms by (rule for_loop_zone)
  then show ?thesis
    by (simp add: process_forecast_data_def invalid_or_empty_def split: sum.splits bool.splits)
qed

theorem same_zone_same_columns_witness:
  "localtime scenario_platform = localtime (offline_platform 3600)
   \<and> localtime_float scenario_platform = localtime_float (offline_platform 3600)
   \<and> snd (process_forecast_data scenario_platform scenario_response blank_world)
       = snd (process_forecast_data (offline_platform 3600) scenario_response
                (print_line ''earlier output'' blank_world))
   \<and> snd (process_forecast_data scenario_platform scenario_response blank_world)
       = Inr (Some scenario_columns)"
proof -
  have h1: "localtime scenario_platform = localtime (offline_platform 3600)"
    by (simp add: scenario_platform_def offline_platform_def zone_platform_def)
  have h2: "localtime_float scenario_platform = localtime_float (offline_platform 3600)"
    by (simp add: scenario_platform_def offline_platform_def zone_platform_def)
  have r: "snd (process_forecast_data scenario_platform scenario_response blank_world)
             = Inr (Some scenario_columns)"
    by (simp add: scenario_process)
  from same_zone_same_columns [OF h1 h2, of scenario_response blank_world
      "print_line ''earlier output'' blank_world"] h1 h2 r
  show ?thesis by blast
qed

subsection \<open>The condition label\<close>

lemma getitem_Inr_D: "getitem v k = Inr x \<Longrightarrow> \<exists>kvs. v = JObj kvs \<and> map_of kvs k = Some x"
  by (cases v) (auto split: option.splits)

lemma loop_body_label:
  "loop_body P e empty_columns = Inr r \<Longrightarrow> weather_label e = Inr (weather_descriptions_main r ! 0)"
  unfolding loop_body_def
  by (auto simp add: empty_columns_def and_then_def split: sum.splits)

lemma loop_body_temp:
  "loop_body P e empty_columns = Inr r \<Longrightarrow>
   and_then (getitem e ''main'') (\<lambda>m. getitem m ''temp'') = Inr (temperatures r ! 0)"
  unfolding loop_body_def
  by (auto simp add: empty_columns_def and_then_def split: sum.splits)

lemma weather_label_missing:
  "map_of ekvs ''weather'' = None \<Longrightarrow> weather_label (JObj ekvs) = Inl (KeyError (JStr ''weather''))"
  by (simp add: weather_label_def)

lemma weather_label_falsy:
  "map_of ekvs ''weather'' = Some c \<Longrightarrow> \<not> truthy c \<Longrightarrow> weather_label (JObj ekvs) = Inr (JStr ''N/A'')"
  by (simp add: weather_label_def)

lemma weather_label_first:
  "map_of ekvs ''weather'' = Some (JList (first # rest)) \<Longrightarrow>
   weather_label (JObj ekvs) = getitem first ''main''"
  by (simp add: weather_label_def)

lemma weather_label_Inr_D:
  "weather_label e = Inr l \<Longrightarrow> \<exists>ekvs c. e = JObj ekvs \<and> map_of ekvs ''weather'' = Some c"
proof -
  assume a: "weather_label e = Inr l"
  then obtain c where "getitem e ''weather'' = Inr c"
    by (cases "getitem e ''weather''") (simp_all add: weather_label_def)
  then show ?thesis using getitem_Inr_D by blast
qed

lemma process_Some_D:
  assumes "process_forecast_data P (JObj kvs) w = (w', Inr (Some cols))"
    and "map_of kvs ''list'' = Some (JList es)"
  shows "for_loop P es empty_columns = Inr cols"
  using assms process_with_list [OF assms(2), of P w]
  by (cases "for_loop P es empty_columns") simp_all

text \<open>
  C3, as stated: an entry whose condition list is empty or missing gets the label
  \<open>N/A\<close>. An entry with no \<open>weather\<close> key gets no label: the lookup raises, and the
  exception leaves \<^verbatim>\<open>process_forecast_data\<close>.
\<close>

theorem missing_weather_key_raises:
  "process_forecast_data scenario_platform
     (JObj [(''list'', JList [JObj [(''dt'', JInt 1700000000),
        (''main'', JObj [(''temp'', JInt 10), (''feels_like'', JInt 9), (''humidity'', JInt 50)]),
        (''wind'', JObj [(''speed'', JInt 3)])]])]) blank_world
   = (blank_world, Inl (KeyError (JStr ''weather'')))"
  by (simp add: process_forecast_data_def invalid_or_empty_def loop_body_def weather_label_def empty_columns_def
      scenario_defs)

text \<open>
  C3, amended: whenever \<^verbatim>\<open>process_forecast_data\<close> returns its columns, every entry
  holds a value under \<open>weather\<close>; where that value is empty or otherwise false (the
  empty list, \<^verbatim>\<open>None\<close>) the label of the entry is \<open>N/A\<close>, and where it is a non-empty
  list the label is what the first condition holds under \<open>main\<close>. For an entry without
  the key \<open>weather\<close> the lookup of the label raises \<^verbatim>\<open>KeyError\<close>.
\<close>

theorem condition_label:
  assumes "process_forecast_data P (JObj kvs) w = (w', Inr (Some cols))"
    and "map_of kvs ''list'' = Some (JList es)" and "i < length es" and "es ! i = JObj ekvs"
  shows "(\<exists>c. map_of ekvs ''weather'' = Some c
            \<and> (\<not> truthy c \<longrightarrow> weather_descriptions_main cols ! i = JStr ''N/A'')
            \<and> (\<forall>first rest. c = JList (first # rest) \<longrightarrow>
                  getitem first ''main'' = Inr (weather_descriptions_main cols ! i)))
         \<and> (\<forall>other. map_of other ''weather'' = None \<longrightarrow>
               weather_label (JObj other) = Inl (KeyError (JStr ''weather'')))"
proof -
  from process_Some_D [OF assms(1,2)] have "for_loop P es empty_columns = Inr cols" .
  from for_loop_rows [OF this] assms(3)
  have "loop_body P (es ! i) empty_columns = Inr (row_at cols i)" by blast
  from loop_body_label [OF this]
  have l: "weather_label (JObj ekvs) = Inr (weather_descriptions_main cols ! i)"
    by (simp add: assms(4) row_at_def)
  from weather_label_Inr_D [OF l] obtain c where c: "map_of ekvs ''weather'' = Some c"
    by auto
  have "weather_descriptions_main cols ! i = JStr ''N/A''" if "\<not> truthy c"
    using weather_label_falsy [OF c that] l by simp
  moreover have "getitem first ''main'' = Inr (weather_descriptions_main cols ! i)"
    if "c = JList (first # rest)" for first rest
    using weather_label_first [of ekvs first rest] c that l by simp
  ultimately show ?thesis using c weather_label_missing by blast
qed

theorem condition_label_witness:
  "process_forecast_data scenario_platform scenario_response blank_world
     = (blank_world, Inr (Some scenario_columns))
   \<and> map_of [(''cod'', JStr ''200''), (''list'', JList scenario_entries)] ''list''
       = Some (JList scenario_entries)
   \<and> 2 < length scenario_entries
   \<and> map_of [(''weather'', JList [])] ''weather'' = Some (JList [])
   \<and> \<not> truthy (JList [])
   \<and> weather_descriptions_main scenario_columns ! 2 = JStr ''N/A''
   \<and> weather_descriptions_main scenario_columns ! 0 = JStr ''Rain''"
proof -
  have h1: "process_forecast_data scenario_platform
              (JObj [(''cod'', JStr ''200''), (''list'', JList scenario_entries)]) blank_world
            = (blank_world, Inr (Some scenario_columns))"
    using scenario_process [of blank_world] by (simp add: scenario_response_def)
  have h2: "map_of [(''cod'', JStr ''200''), (''list'', JList scenario_entries)] ''list''
              = Some (JList scenario_entries)"
    by simp
  have h3: "2 < length scenario_entries" by (simp add: scenario_entries_def)
  have h4: "scenario_entries ! 2 = JObj [(''dt'', JInt 1700021600),
           (''main'', JObj [(''temp'', JInt 9), (''feels_like'', JInt 9), (''humidity'', JInt 50)]),
           (''wind'', JObj [(''speed'', JInt 3)]),
           (''weather'', JList [])]"
    by (simp add: scenario_entries_def forecast_entry_def)
  have h5: "0 < length scenario_entries" by (simp add: scenario_entries_def)
  have h6: "scenario_entries ! 0 = JObj [(''dt'', JInt 1700000000),
           (''main'', JObj [(''temp'', JInt 10), (''feels_like'', JInt 10), (''humidity'', JInt 50)]),
           (''wind'', JObj [(''speed'', JInt 3)]),
           (''weather'', JList [JObj [(''main'', JStr ''Rain'')]])]"
    by (simp add: scenario_entries_def forecast_entry_def)
  from condition_label [OF h1 h2 h3 h4]
  have a: "weather_descriptions_main scenario_columns ! 2 = JStr ''N/A''" by simp
  from condition_label [OF h1 h2 h5 h6]
  have b: "weather_descriptions_main scenario_columns ! 0 = JStr ''Rain''" by simp
  from a b h1 h2 h3 show ?thesis by (simp add: scenario_response_def)
qed

subsection \<open>Entries that lack a key\<close>

lemma loop_body_Inr_D:
  assumes "loop_body P e cols = Inr r"
  shows "\<exists>dt m x1 x2 x3 wnd x4 l.
           getitem e ''dt'' = Inr dt \<and> getitem e ''main'' = Inr m
           \<and> getitem m ''temp'' = Inr x1 \<and> getitem m ''feels_like'' = Inr x2
           \<and> getitem m ''humidity'' = Inr x3 \<and> getitem e ''wind'' = Inr wnd
           \<and> getitem wnd ''speed'' = Inr x4 \<and> weather_label e = Inr l"
  using assms unfolding loop_body_def
  by (auto simp add: and_then_def split: sum.splits)

lemma lacks_key_loop_body:
  assumes "lacks_key e"
  shows "\<exists>err. loop_body P e cols = Inl err"
proof (cases "loop_body P e cols")
  case (Inl err)
  then show ?thesis by blast
next
  case (Inr r)
  from loop_body_Inr_D [OF Inr] obtain dt m x1 x2 x3 wnd x4 l where
    g: "getitem e ''dt'' = Inr dt" "getitem e ''main'' = Inr m"
       "getitem m ''temp'' = Inr x1" "getitem m ''feels_like'' = Inr x2"
       "getitem m ''humidity'' = Inr x3" "getitem e ''wind'' = Inr wnd"
       "getitem wnd ''speed'' = Inr x4" "weather_label e = Inr l"
    by blast
  from getitem_Inr_D [OF g(1)] obtain kvs where e: "e = JObj kvs" by blast
  from weather_label_Inr_D [OF g(8)] e obtain c where c: "map_of kvs ''weather'' = Some c"
    by auto
  from getitem_Inr_D [OF g(3)] obtain mk where m: "m = JObj mk" by blast
  from getitem_Inr_D [OF g(7)] obtain wk where wnd: "wnd = JObj wk" by blast
  have "\<not> lacks_key e"
    using g c unfolding e m wnd lacks_key_def
    by (auto split: option.splits)
  with assms show ?thesis by simp
qed

lemma for_loop_append:
  "for_loop P (xs @ ys) cols = and_then (for_loop P xs cols) (for_loop P ys)"
proof (induction xs arbitrary: cols)
  case Nil
  show ?case by simp
next
  case (Cons x xs)
  then show ?case by (cases "loop_body P x cols") simp_all
qed

lemma for_loop_at:
  assumes "i < length es"
  shows "for_loop P es cols =
           and_then (for_loop P (take i es) cols) (\<lambda>c.
           and_then (loop_body P (es ! i) c) (for_loop P (drop (Suc i) es)))"
proof -
  have "es = take i es @ es ! i # drop (Suc i) es"
    using assms by (simp add: id_take_nth_drop)
  then have "for_loop P es cols = for_loop P (take i es @ es ! i # drop (Suc i) es) cols"
    by simp
  also have "\<dots> = and_then (for_loop P (take i es) cols)
                      (for_loop P (es ! i # drop (Suc i) es))"
    by (rule for_loop_append)
  also have "for_loop P (es ! i # drop (Suc i) es) =
               (\<lambda>c. and_then (loop_body P (es ! i) c) (for_loop P (drop (Suc i) es)))"
    by (rule ext) simp
  finally show ?thesis .
qed

lemma for_loop_fails:
  assumes "i < length es" and "\<And>c. \<exists>err. loop_body P (es ! i) c = Inl err"
  shows "\<exists>err. for_loop P es cols = Inl err"
proof (cases "for_loop P (take i es) cols")
  case (Inl err)
  then show ?thesis using for_loop_at [OF assms(1), of P cols] by simp
next
  case (Inr c)
  from assms(2) [of c] obtain err where "loop_body P (es ! i) c = Inl err" by blast
  then show ?thesis using Inr for_loop_at [OF assms(1), of P cols] by simp
qed

lemma shaped_lacks_key_loop_body:
  assumes "shaped P e" and "lacks_key e"
  shows "\<exists>k \<in> set required_keys. loop_body P e cols = Inl (KeyError (JStr k))"
proof -
  from assms(1) obtain kvs where e: "e = JObj kvs"
    by (cases e) (simp_all add: shaped_def)
  show ?thesis
  proof (cases "map_of kvs ''dt''")
    case None
    then show ?thesis by (simp add: e loop_body_def required_keys_def)
  next
    case (Some dt)
    with assms(1) e obtain d where d: "fromtimestamp P dt = Inr d"
      by (auto simp: shaped_def converts_def split: sum.splits)
    show ?thesis
    proof (cases "map_of kvs ''main''")
      case None
      then show ?thesis using Some d by (simp add: e loop_body_def required_keys_def)
    next
      case m: (Some m)
      with assms(1) e obtain mk where mk: "m = JObj mk"
        by (cases m) (simp_all add: shaped_def is_dict_def)
      show ?thesis
      proof (cases "map_of mk ''temp'' = None \<or> map_of mk ''feels_like'' = None
                    \<or> map_of mk ''humidity'' = None")
        case True
        then show ?thesis using Some d m mk
          by (auto simp add: e loop_body_def required_keys_def split: option.splits)
      next
        case fields: False
        then obtain x1 x2 x3 where x: "map_of mk ''temp'' = Some x1"
          "map_of mk ''feels_like'' = Some x2" "map_of mk ''humidity'' = Some x3"
          by auto
        show ?thesis
        proof (cases "map_of kvs ''wind''")
          case None
          then show ?thesis using Some d m mk x
            by (simp add: e loop_body_def required_keys_def)
        next
          case w: (Some wnd)
          with assms(1) e obtain wk where wk: "wnd = JObj wk"
            by (cases wnd) (simp_all add: shaped_def is_dict_def)
          show ?thesis
          proof (cases "map_of wk ''speed''")
            case None
            then show ?thesis using Some d m mk x w wk
              by (simp add: e loop_body_def required_keys_def)
          next
            case s: (Some x4)
            have "map_of kvs ''weather'' = None"
              using assms(2) Some m mk x w wk s by (simp add: e lacks_key_def)
            then show ?thesis using Some d m mk x w wk s
              by (simp add: e loop_body_def weather_label_def required_keys_def)
          qed
        qed
      qed
    qed
  qed
qed

text \<open>
  C10, as stated: whenever some entry of the forecast list lacks a key, the function
  raises a key lookup error. The entry below lacks \<open>wind\<close> and \<open>weather\<close>, and the
  function raises a type error, at the subscript of the \<^verbatim>\<open>None\<close> it holds under \<open>main\<close>.
\<close>

theorem type_error_before_key_error:
  "lacks_key (JObj [(''dt'', JInt 0), (''main'', JNull)])
   \<and> process_forecast_data (offline_platform 0)
        (JObj [(''list'', JList [JObj [(''dt'', JInt 0), (''main'', JNull)]])]) blank_world
      = (blank_world, Inl TypeError)"
  by (simp add: lacks_key_def process_forecast_data_def invalid_or_empty_def loop_body_def empty_columns_def
      offline_platform_def zone_platform_def zone_localtime_def in_datetime_range_def)

text \<open>
  C10, amended: whenever some entry of the forecast list lacks one of the keys \<open>dt\<close>,
  \<open>main\<close>, \<open>wind\<close>, \<open>weather\<close> (or its \<open>main\<close> or \<open>wind\<close> dict lacks a field), the
  function raises: it returns neither an absent result nor columns with a default. The
  exception is the \<^verbatim>\<open>KeyError\<close> of a missing key when the entries before that entry are
  processed without error and what the entry holds has the expected shape (a \<open>dt\<close> that
  converts, dicts under \<open>main\<close> and \<open>wind\<close>).
\<close>

theorem missing_key_raises:
  assumes "map_of kvs ''list'' = Some (JList es)" and "i < length es" and "lacks_key (es ! i)"
  shows "(\<exists>err. process_forecast_data P (JObj kvs) w = (w, Inl err))
         \<and> ((\<exists>c. for_loop P (take i es) empty_columns = Inr c) \<and> shaped P (es ! i) \<longrightarrow>
              (\<exists>k \<in> set required_keys.
                 process_forecast_data P (JObj kvs) w = (w, Inl (KeyError (JStr k)))))"
proof -
  have p: "process_forecast_data P (JObj kvs) w =
             (w, and_then (for_loop P es empty_columns) (\<lambda>cols. Inr (Some cols)))"
    using process_with_list [OF assms(1), of P w] by simp
  from for_loop_fails [OF assms(2), of P empty_columns] lacks_key_loop_body [OF assms(3)]
  obtain err where "for_loop P es empty_columns = Inl err" by blast
  then have first: "\<exists>err. process_forecast_data P (JObj kvs) w = (w, Inl err)"
    using p by simp
  have "\<exists>k \<in> set required_keys.
          process_forecast_data P (JObj kvs) w = (w, Inl (KeyError (JStr k)))"
    if c: "for_loop P (take i es) empty_columns = Inr c" and s: "shaped P (es ! i)" for c
  proof -
    from shaped_lacks_key_loop_body [OF s assms(3), of c] obtain k
      where k: "k \<in> set required_keys" "loop_body P (es ! i) c = Inl (KeyError (JStr k))"
      by blast
    then have "for_loop P es empty_columns = Inl (KeyError (JStr k))"
      using for_loop_at [OF assms(2), of P empty_columns] c by simp
    with p k(1) show ?thesis by auto
  qed
  with first show ?thesis by blast
qed

theorem missing_key_raises_witness:
  "map_of [(''list'', JList entries_without_wind)] ''list'' = Some (JList entries_without_wind)
   \<and> 1 < length entries_without_wind
   \<and> lacks_key (entries_without_wind ! 1)
   \<and> (\<exists>c. for_loop scenario_platform (take 1 entries_without_wind) empty_columns = Inr c)
   \<and> shaped scenario_platform (entries_without_wind ! 1)
   \<and> (\<exists>k \<in> set required_keys.
         process_forecast_data scenario_platform (JObj [(''list'', JList entries_without_wind)])
           blank_world = (blank_world, Inl (KeyError (JStr k))))
   \<and> process_forecast_data scenario_platform (JObj [(''list'', JList entries_without_wind)])
         blank_world = (blank_world, Inl (KeyError (JStr ''wind'')))"
proof -
  have h1: "map_of [(''list'', JList entries_without_wind)] ''list''
              = Some (JList entries_without_wind)"
    by simp
  have h2: "1 < length entries_without_wind" by (simp add: entries_without_wind_def)
  have h3: "lacks_key (entries_without_wind ! 1)"
    by (simp add: entries_without_wind_def lacks_key_def)
  have h4: "\<exists>c. for_loop scenario_platform (take 1 entries_without_wind) empty_columns = Inr c"
    by (simp add: entries_without_wind_def scenario_defs loop_body_def weather_label_def
        empty_columns_def)
  have h5: "shaped scenario_platform (entries_without_wind ! 1)"
    by (simp add: entries_without_wind_def shaped_def converts_def is_dict_def scenario_defs)
  have r: "process_forecast_data scenario_platform (JObj [(''list'', JList entries_without_wind)])
             blank_world = (blank_world, Inl (KeyError (JStr ''wind'')))"
    by (simp add: process_forecast_data_def invalid_or_empty_def entries_without_wind_def scenario_defs
        loop_body_def weather_label_def empty_columns_def)
  from missing_key_raises [OF h1 h2 h3, of scenario_platform blank_world] h4 h5
  have "\<exists>k \<in> set required_keys.
          process_forecast_data scenario_platform (JObj [(''list'', JList entries_without_wind)])
            blank_world = (blank_world, Inl (KeyError (JStr k)))"
    by blast
  with h1 h2 h3 h4 h5 r show ?thesis by blast
qed

subsection \<open>Retrieval\<close>

lemma fetch_http_error:
  assumes "http_get P BASE_API_URL (query k c) = GetReturns r"
    and "400 \<le> status_code r" and "status_code r < 600"
  shows "fetch_weather_data P k c w =
     (print_line
        (if status_code r = 401
         then ''HTTP Error: '' @ http_error_text r @ '' - Invalid API key or key not activated yet.''
         else if status_code r = 404
         then ''HTTP Error: '' @ http_error_text r @ '' - City not found: '' @ c
         else ''HTTP Error: '' @ http_error_text r)
        (after_request k c w), Inr None)"
  using assms
  by (simp add: fetch_weather_data_def query_def after_request_def try_body_def
      raise_for_status_def Let_def)

lemma fetch_request_exception:
  assumes "http_get P BASE_API_URL (query k c) = GetRaises e"
    and "is_RequestException (cls e)" and "cls e \<noteq> HTTPError"
  shows "fetch_weather_data P k c w =
     (print_line (''Request Error: '' @ msg e) (after_request k c w), Inr None)"
  using assms
  by (simp add: fetch_weather_data_def query_def after_request_def try_body_def Let_def)

lemma fetch_decode_error:
  assumes "http_get P BASE_API_URL (query k c) = GetReturns r"
    and "raise_for_status r = None" and "body r = Inl e" and "cls e = JSONDecodeError"
  shows "fetch_weather_data P k c w =
     (print_line ''Error: Failed to decode JSON response from API.'' (after_request k c w), Inr None)"
  using assms
  by (simp add: fetch_weather_data_def query_def after_request_def try_body_def Let_def)

lemma fetch_library_decode_error:
  assumes "http_get P BASE_API_URL (query k c) = GetReturns r"
    and "raise_for_status r = None" and "body r = Inl e" and "cls e = RequestsJSONDecodeError"
  shows "fetch_weather_data P k c w =
     (print_line (''Request Error: '' @ msg e) (after_request k c w), Inr None)"
  using assms
  by (simp add: fetch_weather_data_def query_def after_request_def try_body_def Let_def)

lemma fetch_success:
  assumes "http_get P BASE_API_URL (query k c) = GetReturns r"
    and "raise_for_status r = None" and "body r = Inr d"
  shows "fetch_weather_data P k c w = (after_request k c w, Inr (Some d))"
  using assms
  by (simp add: fetch_weather_data_def query_def after_request_def try_body_def Let_def)

text \<open>
  C4. \<^verbatim>\<open>fetch_weather_data\<close> is to tell five failures apart, the fifth a body that cannot
  be decoded. At a success status with a body that is not JSON, \<^verbatim>\<open>response.json()\<close> raises
  the HTTP library's decode error, which is one of its request exceptions: the handler
  for those comes first and catches it, so the run prints the diagnostic of a request
  failure, as it does for a refused connection, and never the diagnostic of a decode
  failure. The result is absent and nothing is raised, as in the other cases.
\<close>

theorem decode_failure_reported_as_request_error:
  "fetch_weather_data (answering garbled_body) ''ABC'' ''Paris'' blank_world
     = (print_line ''Request Error: Expecting value: line 1 column 1 (char 0)''
          (after_request ''ABC'' ''Paris'' blank_world), Inr None)
   \<and> fetch_weather_data
         (answering (GetRaises \<lparr>cls = ConnectionError, msg = ''Connection refused''\<rparr>))
         ''ABC'' ''Paris'' blank_world
     = (print_line ''Request Error: Connection refused''
          (after_request ''ABC'' ''Paris'' blank_world), Inr None)"
proof -
  have q: "http_get (answering a) BASE_API_URL (query ''ABC'' ''Paris'') = a" for a
    by (simp add: answering_def zone_platform_def)
  have "fetch_weather_data (answering garbled_body) ''ABC'' ''Paris'' blank_world
     = (print_line ''Request Error: Expecting value: line 1 column 1 (char 0)''
          (after_request ''ABC'' ''Paris'' blank_world), Inr None)"
    using fetch_library_decode_error [of "answering garbled_body" "''ABC''" "''Paris''"
        "\<lparr>status_code = 200, http_error_text = [],
          body = Inl \<lparr>cls = RequestsJSONDecodeError,
                      msg = ''Expecting value: line 1 column 1 (char 0)''\<rparr>\<rparr>"
        "\<lparr>cls = RequestsJSONDecodeError, msg = ''Expecting value: line 1 column 1 (char 0)''\<rparr>"
        blank_world]
    by (simp add: q garbled_body_def raise_for_status_def)
  moreover have "fetch_weather_data
         (answering (GetRaises \<lparr>cls = ConnectionError, msg = ''Connection refused''\<rparr>))
         ''ABC'' ''Paris'' blank_world
     = (print_line ''Request Error: Connection refused''
          (after_request ''ABC'' ''Paris'' blank_world), Inr None)"
    using fetch_request_exception [of
        "answering (GetRaises \<lparr>cls = ConnectionError, msg = ''Connection refused''\<rparr>)"
        "''ABC''" "''Paris''" "\<lparr>cls = ConnectionError, msg = ''Connection refused''\<rparr>"
        blank_world]
    by (simp add: q)
  ultimately show ?thesis by simp
qed

subsection \<open>Credential resolution\<close>

lemma seq_raises: "m w = (w1, Inl e) \<Longrightarrow> seq m f w = (w1, Inl e)"
  by (simp add: seq_def)

lemma seq_returns: "m w = (w1, Inr v) \<Longrightarrow> seq m f w = f v w1"
  by (simp add: seq_def)

lemma say_returns: "say s w = (print_line s w, Inr ())"
  by (simp add: say_def)

lemma get_api_key_nonempty:
  "get_api_key P w = (w', Inr k) \<Longrightarrow> k \<noteq> []"
  by (auto simp add: get_api_key_def seq_def say_def returns_def raises_def input_line_def
      Let_def split: option.splits if_splits sum.splits prod.splits)

lemma get_api_key_exit:
  assumes "unset_or_empty (getenv P ''OPENWEATHERMAP_API_KEY'')"
    and "typed_line P = Some l" and "strip l = []"
  shows "get_api_key P w =
     (print_line ''API key is required to run the script. Exiting.''
        ((print_line ''OpenWeatherMap API key not found in .env file or environment variables.'' w)
           \<lparr>stdout := stdout (print_line ''OpenWeatherMap API key not found in .env file or environment variables.'' w)
                      @ [''Please enter your OpenWeatherMap API key: '']\<rparr>),
      Inl SystemExit)"
  using assms
  by (auto simp add: get_api_key_def unset_or_empty_def seq_def say_def returns_def raises_def
      input_line_def Let_def split: option.splits)

text \<open>
  C5. \<^verbatim>\<open>get_api_key\<close> never returns the empty string; and when the environment
  variable is unset or empty and the line typed at the prompt is empty once stripped,
  the program ends with \<^verbatim>\<open>SystemExit\<close> and has sent no request.
\<close>

theorem api_key_never_empty:
  "(get_api_key P w = (w', Inr k) \<longrightarrow> k \<noteq> [])
   \<and> (unset_or_empty (getenv P ''OPENWEATHERMAP_API_KEY'') \<and> typed_line P = Some l
        \<and> strip l = [] \<longrightarrow>
        snd (main P w) = Inl SystemExit \<and> requests_sent (fst (main P w)) = requests_sent w)"
proof (intro conjI impI)
  assume "get_api_key P w = (w', Inr k)"
  then show "k \<noteq> []" by (rule get_api_key_nonempty)
next
  assume a: "unset_or_empty (getenv P ''OPENWEATHERMAP_API_KEY'') \<and> typed_line P = Some l
        \<and> strip l = []"
  then obtain w1 where
    g: "get_api_key P (print_line ''--- Weather Data Visualizer ---'' w) = (w1, Inl SystemExit)"
    and s: "requests_sent w1 = requests_sent w"
    using get_api_key_exit [of P l "print_line ''--- Weather Data Visualizer ---'' w"]
    by (simp add: print_line_def)
  have m: "main P w = (w1, Inl SystemExit)"
    by (simp add: main_def seq_def say_def g)
  from m show "snd (main P w) = Inl SystemExit" by simp
  from m s show "requests_sent (fst (main P w)) = requests_sent w" by simp
qed

theorem api_key_never_empty_witness:
  "get_api_key scenario_platform blank_world = (blank_world, Inr ''ABC'')
   \<and> ''ABC'' \<noteq> []
   \<and> unset_or_empty (getenv (zone_platform 0 [(''CITY_NAME'', ''Paris'')] (Some ''  '') (ok_response scenario_response)) ''OPENWEATHERMAP_API_KEY'')
   \<and> typed_line (zone_platform 0 [(''CITY_NAME'', ''Paris'')] (Some ''  '') (ok_response scenario_response)) = Some ''  ''
   \<and> strip ''  '' = []
   \<and> snd (main (zone_platform 0 [(''CITY_NAME'', ''Paris'')] (Some ''  '') (ok_response scenario_response)) blank_world) = Inl SystemExit
   \<and> requests_sent (fst (main (zone_platform 0 [(''CITY_NAME'', ''Paris'')] (Some ''  '') (ok_response scenario_response)) blank_world)) = []"
proof -
  have h1: "get_api_key scenario_platform blank_world = (blank_world, Inr ''ABC'')"
    by (simp add: get_api_key_def scenario_platform_def zone_platform_def scenario_env_def
        seq_def returns_def)
  have h2: "unset_or_empty (getenv (zone_platform 0 [(''CITY_NAME'', ''Paris'')] (Some ''  '') (ok_response scenario_response)) ''OPENWEATHERMAP_API_KEY'')"
    by (simp add: unset_or_empty_def zone_platform_def)
  have h3: "typed_line (zone_platform 0 [(''CITY_NAME'', ''Paris'')] (Some ''  '') (ok_response scenario_response)) = Some ''  ''"
    by (simp add: zone_platform_def)
  have h4: "strip ''  '' = []"
    by (simp add: strip_def isspace_def)
  from api_key_never_empty [where P = scenario_platform and w = blank_world
      and w' = blank_world and k = "''ABC''"]
    api_key_never_empty [where w = blank_world and l = "''  ''" and
      P = "zone_platform 0 [(''CITY_NAME'', ''Paris'')] (Some ''  '') (ok_response scenario_response)"]
    h1 h2 h3 h4
  show ?thesis by (simp add: blank_world_def)
qed

subsection \<open>Rendering\<close>

lemma savefig_ok:
  "fs w PLOTS_DIR = Some Directory \<Longrightarrow> fs w (plot_path name) \<noteq> Some Directory \<Longrightarrow>
   savefig name fig w = (w\<lparr>fs := (fs w)(plot_path name \<mapsto> Image fig)\<rparr>, Inr ())"
  by (simp add: savefig_def)

lemma plot_path_neq_dir [simp]: "plot_path n \<noteq> PLOTS_DIR" "PLOTS_DIR \<noteq> plot_path n"
  by (simp_all add: plot_path_def)

lemma plot_path_inj [simp]: "(plot_path a = plot_path b) = (a = b)"
  by (simp add: plot_path_def)

lemma plot_temperature_ok:
  assumes "fs w PLOTS_DIR = Some Directory"
    and "fs w (plot_path ''temperature_forecast.png'') \<noteq> Some Directory"
    and "lineplot P (timestamps cols) (temperatures cols) = None"
    and "lineplot P (timestamps cols) (feels_like_temps cols) = None"
  shows "plot_temperature_forecast P (timestamps cols) (temperatures cols) (feels_like_temps cols) c w =
     (w\<lparr>fs := (fs w)(plot_path ''temperature_forecast.png'' \<mapsto> Image (temperature_figure P cols c)),
        stdout := stdout w @ [''Saved temperature forecast plot to '' @ plot_path ''temperature_forecast.png''],
        shown := shown w @ [temperature_figure P cols c]\<rparr>, Inr ())"
  using assms(3,4)
  by (simp add: plot_temperature_forecast_def temperature_figure_def Let_def seq_def sns_lineplot_def
      savefig_ok [OF assms(1,2)] say_def print_line_def show_figure_def)

lemma plot_humidity_ok:
  assumes "fs w PLOTS_DIR = Some Directory"
    and "fs w (plot_path ''humidity_forecast.png'') \<noteq> Some Directory"
    and "lineplot P (timestamps cols) (humidities cols) = None"
  shows "plot_humidity_forecast P (timestamps cols) (humidities cols) c w =
     (w\<lparr>fs := (fs w)(plot_path ''humidity_forecast.png'' \<mapsto> Image (humidity_figure P cols c)),
        stdout := stdout w @ [''Saved humidity forecast plot to '' @ plot_path ''humidity_forecast.png''],
        shown := shown w @ [humidity_figure P cols c]\<rparr>, Inr ())"
  using assms(3)
  by (simp add: plot_humidity_forecast_def humidity_figure_def Let_def seq_def sns_lineplot_def
      savefig_ok [OF assms(1,2)] say_def print_line_def show_figure_def)

lemma plot_wind_speed_ok:
  assumes "fs w PLOTS_DIR = Some Directory"
    and "fs w (plot_path ''wind_speed_forecast.png'') \<noteq> Some Directory"
    and "lineplot P (timestamps cols) (wind_speeds cols) = None"
  shows "plot_wind_speed_forecast P (timestamps cols) (wind_speeds cols) c w =
     (w\<lparr>fs := (fs w)(plot_path ''wind_speed_forecast.png'' \<mapsto> Image (wind_speed_figure P cols c)),
        stdout := stdout w @ [''Saved wind speed forecast plot to '' @ plot_path ''wind_speed_forecast.png''],
        shown := shown w @ [wind_speed_figure P cols c]\<rparr>, Inr ())"
  using assms(3)
  by (simp add: plot_wind_speed_forecast_def wind_speed_figure_def Let_def seq_def sns_lineplot_def
      savefig_ok [OF assms(1,2)] say_def print_line_def show_figure_def)

lemma plot_pie_ok:
  assumes "fs w PLOTS_DIR = Some Directory"
    and "fs w (plot_path ''weather_conditions_pie_chart.png'') \<noteq> Some Directory"
    and "weather_descriptions_main cols \<noteq> []" and "list_all hashable (weather_descriptions_main cols)"
  shows "plot_weather_conditions_pie P (weather_descriptions_main cols) c w =
     (w\<lparr>fs := (fs w)(plot_path ''weather_conditions_pie_chart.png'' \<mapsto> Image (conditions_pie P cols c)),
        stdout := stdout w @ [''Saved weather conditions pie chart to '' @ plot_path ''weather_conditions_pie_chart.png''],
        shown := shown w @ [conditions_pie P cols c]\<rparr>, Inr ())"
  using assms(3,4)
  by (simp add: plot_weather_conditions_pie_def conditions_pie_def Let_def seq_def
      savefig_ok [OF assms(1,2)] say_def print_line_def show_figure_def)

lemma plot_pie_skip:
  "plot_weather_conditions_pie P [] c w =
     (print_line ''No weather descriptions to plot for pie chart.'' w, Inr ())"
  by (simp add: plot_weather_conditions_pie_def say_def)

lemma three_plots:
  assumes "ready w" and "drawable P cols"
  shows "seq (plot_temperature_forecast P (timestamps cols) (temperatures cols)
            (feels_like_temps cols) c) (\<lambda>_.
         seq (plot_humidity_forecast P (timestamps cols) (humidities cols) c) (\<lambda>_.
         seq (plot_wind_speed_forecast P (timestamps cols) (wind_speeds cols) c) K)) w
         = K () (three_charts P cols c w)"
proof -
  from assms have d: "fs w PLOTS_DIR = Some Directory"
    and f: "fs w (plot_path ''temperature_forecast.png'') \<noteq> Some Directory"
       "fs w (plot_path ''humidity_forecast.png'') \<noteq> Some Directory"
       "fs w (plot_path ''wind_speed_forecast.png'') \<noteq> Some Directory"
    by (simp_all add: ready_def chart_names_def)
  from assms(2) have l: "lineplot P (timestamps cols) (temperatures cols) = None"
    "lineplot P (timestamps cols) (feels_like_temps cols) = None"
    "lineplot P (timestamps cols) (humidities cols) = None"
    "lineplot P (timestamps cols) (wind_speeds cols) = None"
    by (simp_all add: drawable_def)
  show ?thesis
    by (simp add: seq_returns [OF plot_temperature_ok] seq_returns [OF plot_humidity_ok]
        seq_returns [OF plot_wind_speed_ok] d f l three_charts_def)
qed

lemma get_api_key_env:
  "getenv P ''OPENWEATHERMAP_API_KEY'' = Some k \<Longrightarrow> k \<noteq> [] \<Longrightarrow> get_api_key P w = (w, Inr k)"
  by (simp add: get_api_key_def seq_def returns_def)

lemma render_all_result:
  assumes "ready w" and "list_all hashable (weather_descriptions_main cols)"
    and "drawable P cols"
  shows "render_all P cols c w = (closing_lines (with_pie P cols c (three_charts P cols c w)), Inr ())"
proof -
  from assms(1) have d: "fs (three_charts P cols c w) PLOTS_DIR = Some Directory"
    and f: "fs (three_charts P cols c w) (plot_path ''weather_conditions_pie_chart.png'')
              \<noteq> Some Directory"
    by (simp_all add: ready_def chart_names_def three_charts_def)
  show ?thesis
  proof (cases "weather_descriptions_main cols = []")
    case True
    then show ?thesis
      unfolding render_all_def three_plots [OF assms(1,3)]
      by (simp add: seq_def plot_pie_skip say_def closing_lines_def with_pie_def)
  next
    case False
    show ?thesis
      unfolding render_all_def three_plots [OF assms(1,3)]
      by (simp add: seq_def plot_pie_ok [OF d f False assms(2)] say_def closing_lines_def
          with_pie_def False)
  qed
qed

lemma render_all_unhashable:
  assumes "ready w" and "\<not> list_all hashable (weather_descriptions_main cols)"
    and "drawable P cols"
  shows "render_all P cols c w = (three_charts P cols c w, Inl TypeError)"
proof -
  from assms(2) have "weather_descriptions_main cols \<noteq> []" by auto
  with assms(2) show ?thesis
    unfolding render_all_def three_plots [OF assms(1,3)]
    by (simp add: seq_def plot_weather_conditions_pie_def raises_def)
qed

lemma render_all_three_files:
  assumes "ready w" and "drawable P cols"
  shows "fs (fst (render_all P cols c w)) (plot_path ''temperature_forecast.png'')
           = Some (Image (temperature_figure P cols c))
       \<and> fs (fst (render_all P cols c w)) (plot_path ''humidity_forecast.png'')
           = Some (Image (humidity_figure P cols c))
       \<and> fs (fst (render_all P cols c w)) (plot_path ''wind_speed_forecast.png'')
           = Some (Image (wind_speed_figure P cols c))"
proof (cases "list_all hashable (weather_descriptions_main cols)")
  case True
  show ?thesis
    by (simp add: render_all_result [OF assms(1) True assms(2)] closing_lines_def with_pie_def
        three_charts_def print_line_def)
next
  case False
  show ?thesis
    by (simp add: render_all_unhashable [OF assms(1) False assms(2)] three_charts_def)
qed

lemma render_all_pie_file:
  assumes "ready w" and "list_all hashable (weather_descriptions_main cols)"
    and "drawable P cols"
  shows "snd (render_all P cols c w) = Inr ()
       \<and> fs (fst (render_all P cols c w)) (plot_path ''weather_conditions_pie_chart.png'')
           = (if weather_descriptions_main cols = []
              then fs w (plot_path ''weather_conditions_pie_chart.png'')
              else Some (Image (conditions_pie P cols c)))"
  by (simp add: render_all_result [OF assms] closing_lines_def with_pie_def
      three_charts_def print_line_def)

text \<open>
  What a statement of the rendering stage leaves as it was: \<^verbatim>\<open>savefig\<close> changes the file
  system at its own path only, the other statements nowhere.
\<close>

lemma keeps_seq:
  assumes "\<And>w. fs (fst (m w)) p = fs w p"
    and "\<And>v w. fs (fst (f v w)) p = fs w p"
  shows "fs (fst (seq m f w)) p = fs w p"
proof (cases "m w")
  case (Pair w1 r)
  then have a: "fs w1 p = fs w p" using assms(1) [of w] by simp
  show ?thesis
  proof (cases r)
    case (Inl e)
    with Pair a show ?thesis by (simp add: seq_def)
  next
    case (Inr v)
    with Pair a assms(2) [of v w1] show ?thesis by (simp add: seq_def)
  qed
qed

lemma keeps_say: "fs (fst (say s w)) p = fs w p"
  by (simp add: say_def print_line_def)

lemma keeps_show: "fs (fst (show_figure fig w)) p = fs w p"
  by (simp add: show_figure_def)

lemma keeps_lineplot: "fs (fst (sns_lineplot P x y w)) p = fs w p"
  by (simp add: sns_lineplot_def split: option.splits)

lemma keeps_savefig: "p \<noteq> plot_path name \<Longrightarrow> fs (fst (savefig name fig w)) p = fs w p"
  by (simp add: savefig_def split: option.splits node.splits)

lemma keeps_raises: "fs (fst (raises e w)) p = fs w p"
  by (simp add: raises_def)

lemmas keeps = keeps_say keeps_show keeps_lineplot keeps_savefig keeps_raises

lemma keeps_temperature:
  "p \<noteq> plot_path ''temperature_forecast.png'' \<Longrightarrow>
   fs (fst (plot_temperature_forecast P ts temps feels c w)) p = fs w p"
  unfolding plot_temperature_forecast_def Let_def
  by (intro keeps_seq) (simp_all add: keeps)

lemma keeps_humidity:
  "p \<noteq> plot_path ''humidity_forecast.png'' \<Longrightarrow>
   fs (fst (plot_humidity_forecast P ts hums c w)) p = fs w p"
  unfolding plot_humidity_forecast_def Let_def
  by (intro keeps_seq) (simp_all add: keeps)

lemma keeps_wind_speed:
  "p \<noteq> plot_path ''wind_speed_forecast.png'' \<Longrightarrow>
   fs (fst (plot_wind_speed_forecast P ts winds c w)) p = fs w p"
  unfolding plot_wind_speed_forecast_def Let_def
  by (intro keeps_seq) (simp_all add: keeps)

lemma keeps_pie:
  assumes "p \<noteq> plot_path ''weather_conditions_pie_chart.png''"
  shows "fs (fst (plot_weather_conditions_pie P labels c w)) p = fs w p"
proof (cases "labels = []")
  case True
  then show ?thesis by (simp add: plot_weather_conditions_pie_def keeps)
next
  case False
  show ?thesis
  proof (cases "list_all hashable labels")
    case unhashable: False
    with False show ?thesis by (simp add: plot_weather_conditions_pie_def keeps)
  next
    case True
    have "fs (fst (seq (savefig ''weather_conditions_pie_chart.png'' fig) (\<lambda>_.
            seq (say line) (\<lambda>_. show_figure fig)) w)) p = fs w p" for fig line
      by (intro keeps_seq) (simp_all add: keeps assms)
    with False True show ?thesis by (simp add: plot_weather_conditions_pie_def Let_def)
  qed
qed

lemmas keeps_plots = keeps_temperature keeps_humidity keeps_wind_speed keeps_pie

lemma render_all_keeps_dir: "fs (fst (render_all P cols c w)) PLOTS_DIR = fs w PLOTS_DIR"
  unfolding render_all_def
  by (intro keeps_seq) (simp_all add: keeps keeps_plots)

lemma render_all_temperature_file:
  assumes "ready w"
    and "lineplot P (timestamps cols) (temperatures cols) = None"
    and "lineplot P (timestamps cols) (feels_like_temps cols) = None"
  shows "fs (fst (render_all P cols c w)) (plot_path ''temperature_forecast.png'')
           = Some (Image (temperature_figure P cols c))"
proof -
  from assms(1) have d: "fs w PLOTS_DIR = Some Directory"
    and f: "fs w (plot_path ''temperature_forecast.png'') \<noteq> Some Directory"
    by (simp_all add: ready_def chart_names_def)
  define rest :: "unit \<Rightarrow> unit stmt" where "rest =
     (\<lambda>_. seq (plot_humidity_forecast P (timestamps cols) (humidities cols) c) (\<lambda>_.
      seq (plot_wind_speed_forecast P (timestamps cols) (wind_speeds cols) c) (\<lambda>_.
      seq (plot_weather_conditions_pie P (weather_descriptions_main cols) c) (\<lambda>_.
      seq (say (CHR 0x0A # ''--- All visualizations saved in '' @ [CHR 0x27] @ PLOTS_DIR
                @ [CHR 0x27] @ '' directory ---'')) (\<lambda>_.
      say ''--- Script finished ---'')))))"
  have k: "fs (fst (rest u w')) (plot_path ''temperature_forecast.png'')
             = fs w' (plot_path ''temperature_forecast.png'')" for u w'
    unfolding rest_def by (intro keeps_seq) (simp_all add: keeps keeps_plots)
  have r: "render_all P cols c =
             seq (plot_temperature_forecast P (timestamps cols) (temperatures cols)
                    (feels_like_temps cols) c) rest"
    unfolding render_all_def rest_def ..
  obtain w1 where 1: "plot_temperature_forecast P (timestamps cols) (temperatures cols)
                        (feels_like_temps cols) c w = (w1, Inr ())"
    and 2: "fs w1 (plot_path ''temperature_forecast.png'')
              = Some (Image (temperature_figure P cols c))"
    using plot_temperature_ok [OF d f assms(2,3), of c] by simp
  have "render_all P cols c w = rest () w1"
    unfolding r by (simp add: seq_def 1)
  with k 2 show ?thesis by simp
qed

subsection \<open>The pipeline\<close>

lemma main_to_processing:
  assumes "answers_with P k c d"
  shows "main P w =
     (if truthy d then
        seq (say ''Weather data fetched successfully.'') (\<lambda>_.
        seq (process_forecast_data P d) (\<lambda>processed_data.
        case processed_data of
          None \<Rightarrow> say ''Failed to process weather data. Exiting.''
        | Some cols \<Rightarrow>
            seq ensure_plots_dir (\<lambda>_.
            seq (say (CHR 0x0A # ''Generating and saving plots...'')) (\<lambda>_.
            render_all P cols c))))
      else
        say (''Could not retrieve weather data for '' @ title P c
             @ ''. Please check the city name and your API key.''))
     (before_processing P k c w)"
proof -
  from assms obtain r where k: "getenv P ''OPENWEATHERMAP_API_KEY'' = Some k" "k \<noteq> []"
    and c: "getenv P ''CITY_NAME'' = Some c" "c \<noteq> []"
    and r: "http_get P BASE_API_URL (query k c) = GetReturns r" "raise_for_status r = None"
       "body r = Inr d"
    by (auto simp: answers_with_def)
  show ?thesis
    unfolding main_def
    by (simp add: seq_def say_def get_api_key_env [OF k] c fetch_success [OF r]
        before_processing_def)
qed

lemma process_any_world:
  assumes "snd (process_forecast_data P d w0) = Inr (Some cols)"
  shows "process_forecast_data P d w = (w, Inr (Some cols))"
proof (cases "invalid_or_empty d")
  case (Inl e)
  with assms show ?thesis by (simp add: process_forecast_data_def)
next
  case (Inr b)
  with assms show ?thesis by (cases b) (simp_all add: process_forecast_data_def)
qed

lemma process_absent_any_world:
  assumes "snd (process_forecast_data P d w0) = Inr None"
  shows "process_forecast_data P d w =
           (print_line ''Error: Invalid or empty data received from API.'' w, Inr None)"
proof (cases "invalid_or_empty d")
  case (Inl e)
  with assms show ?thesis by (simp add: process_forecast_data_def)
next
  case (Inr b)
  with assms show ?thesis
    by (cases b) (simp_all add: process_forecast_data_def and_then_def split: sum.splits)
qed

lemma usable_ready: "usable w \<Longrightarrow> fs w' = fs w \<Longrightarrow>
   ready (print_line s (fst (ensure_plots_dir w')))"
  by (auto simp add: usable_def ready_def ensure_plots_dir_def print_line_def chart_names_def)

lemma process_Some_truthy:
  assumes "snd (process_forecast_data P d w0) = Inr (Some cols)"
  shows "truthy d"
proof (rule ccontr)
  assume "\<not> truthy d"
  then have "snd (process_forecast_data P d w0) = Inr None"
    by (simp add: process_forecast_data_def invalid_or_empty_def)
  with assms show False by simp
qed

lemma main_success:
  assumes "answers_with P k c d"
    and "snd (process_forecast_data P d w0) = Inr (Some cols)"
  shows "main P w = render_all P cols c (before_rendering P k c w)"
proof -
  have e: "ensure_plots_dir w' = (fst (ensure_plots_dir w'), Inr ())" for w'
    by (simp add: ensure_plots_dir_def)
  show ?thesis
    unfolding main_to_processing [OF assms(1)]
    using process_Some_truthy [OF assms(2)]
    by (simp add: seq_returns [OF say_returns] seq_returns [OF process_any_world [OF assms(2)]]
        seq_returns [OF e] before_rendering_def)
qed

lemma ready_before_rendering: "usable w \<Longrightarrow> ready (before_rendering P k c w)"
  unfolding before_rendering_def
  by (rule usable_ready) (simp_all add: before_processing_def after_request_def print_line_def)

lemma before_rendering_pie:
  "usable w \<Longrightarrow> fs (before_rendering P k c w) (plot_path n) = fs w (plot_path n)"
  by (simp add: before_rendering_def before_processing_def after_request_def print_line_def
      ensure_plots_dir_def)

lemma main_absent:
  assumes "answers_with P k c d"
    and "\<not> truthy d \<or> snd (process_forecast_data P d w0) = Inr None"
  shows "snd (main P w) = Inr () \<and> fs (fst (main P w)) = fs w
         \<and> shown (fst (main P w)) = shown w"
proof (cases "truthy d")
  case False
  then show ?thesis
    unfolding main_to_processing [OF assms(1)]
    by (simp add: say_def before_processing_def after_request_def print_line_def)
next
  case True
  with assms(2) have "snd (process_forecast_data P d w0) = Inr None" by simp
  from process_absent_any_world [OF this] True show ?thesis
    unfolding main_to_processing [OF assms(1)]
    by (simp add: seq_def say_def before_processing_def after_request_def print_line_def)
qed

lemma no_conditions_label: "no_conditions e \<Longrightarrow> weather_label e = Inr (JStr ''N/A'')"
  by (cases e) (simp_all add: no_conditions_def weather_label_def)

lemma no_conditions_labels:
  assumes "for_loop P es empty_columns = Inr cols" and "list_all no_conditions es"
  shows "weather_descriptions_main cols = replicate (length es) (JStr ''N/A'')"
proof (rule nth_equalityI)
  from for_loop_rows [OF assms(1)] have rect: "rectangular cols (length es)"
    and rows: "\<forall>i<length es. loop_body P (es ! i) empty_columns = Inr (row_at cols i)"
    by simp_all
  from rect show len: "length (weather_descriptions_main cols)
                       = length (replicate (length es) (JStr ''N/A''))"
    by (simp add: rectangular_def)
  fix i assume "i < length (weather_descriptions_main cols)"
  with len have i: "i < length es" by simp
  with rows have "loop_body P (es ! i) empty_columns = Inr (row_at cols i)" by blast
  from loop_body_label [OF this]
  have "weather_label (es ! i) = Inr (weather_descriptions_main cols ! i)"
    by (simp add: row_at_def)
  moreover from assms(2) i have "no_conditions (es ! i)" by (simp add: list_all_length)
  ultimately show "weather_descriptions_main cols ! i = replicate (length es) (JStr ''N/A'') ! i"
    using i no_conditions_label by simp
qed

lemma temperatures_in_order:
  assumes "for_loop P es empty_columns = Inr cols"
  shows "map Inr (temperatures cols)
         = map (\<lambda>e. and_then (getitem e ''main'') (\<lambda>m. getitem m ''temp'')) es"
proof (rule nth_equalityI)
  from for_loop_rows [OF assms(1)] have rect: "rectangular cols (length es)"
    and rows: "\<forall>i<length es. loop_body P (es ! i) empty_columns = Inr (row_at cols i)"
    by simp_all
  from rect show len: "length (map Inr (temperatures cols))
      = length (map (\<lambda>e. and_then (getitem e ''main'') (\<lambda>m. getitem m ''temp'')) es)"
    by (simp add: rectangular_def)
  fix i assume "i < length (map Inr (temperatures cols))"
  with rect have i: "i < length es" and i': "i < length (temperatures cols)"
    by (simp_all add: rectangular_def)
  with rows have "loop_body P (es ! i) empty_columns = Inr (row_at cols i)" by blast
  from loop_body_temp [OF this] i i'
  show "map Inr (temperatures cols) ! i
      = map (\<lambda>e. and_then (getitem e ''main'') (\<lambda>m. getitem m ''temp'')) es ! i"
    by (simp add: row_at_def)
qed

lemma answering_answers: "answers_with (answering (ok_response d)) ''ABC'' ''Paris'' d"
  by (simp add: answers_with_def answering_def zone_platform_def scenario_env_def
      ok_response_def raise_for_status_def)

lemma usable_blank: "usable blank_world"
  by (simp add: usable_def blank_world_def chart_names_def)

lemma title_Paris: "title (answering a) ''Paris'' = ''Paris''"
  by (simp add: answering_def zone_platform_def ascii_title_def is_ascii_lower_def
      is_ascii_upper_def)

lemma process_without_list:
  assumes "''list'' \<notin> set (map fst kvs)"
  shows "process_forecast_data P (JObj kvs) w =
           (print_line ''Error: Invalid or empty data received from API.'' w, Inr None)"
  using assms by (simp add: process_forecast_data_def invalid_or_empty_def)

lemma process_empty_list:
  assumes "map_of kvs ''list'' = Some (JList [])"
  shows "process_forecast_data P (JObj kvs) w = (w, Inr (Some empty_columns))"
  using process_with_list [OF assms, of P w] by simp

lemma scenario_answers: "answers_with scenario_platform ''ABC'' ''Paris'' scenario_response"
  using answering_answers [of scenario_response]
  by (simp add: scenario_platform_def answering_def)

lemma ready_prepared: "ready prepared_world"
  by (simp add: ready_def prepared_world_def blank_world_def chart_names_def)

lemma bare_process:
  "snd (process_forecast_data (answering (ok_response bare_forecast)) bare_forecast w)
     = Inr (Some bare_columns)"
proof -
  have "for_loop (answering (ok_response bare_forecast)) bare_entries empty_columns
          = Inr bare_columns"
    by (simp add: bare_entries_def forecast_entry_def loop_body_def weather_label_def
        empty_columns_def answering_def zone_platform_def zone_localtime_def
        in_datetime_range_def bare_columns_def)
  then show ?thesis
    using process_with_list [of "[(''list'', JList bare_entries)]" "JList bare_entries"
        "answering (ok_response bare_forecast)" w]
    by (simp add: bare_forecast_def)
qed

lemma bare_no_conditions: "list_all no_conditions bare_entries"
  by (simp add: bare_entries_def forecast_entry_def no_conditions_def)

lemma scenario_drawable: "drawable scenario_platform scenario_columns"
  by (simp add: drawable_def scenario_platform_def zone_platform_def scenario_columns_def)

lemma bare_drawable: "drawable (answering a) bare_columns"
  by (simp add: drawable_def answering_def zone_platform_def bare_columns_def)

lemma ensure_creates:
  "fs w PLOTS_DIR = None \<Longrightarrow>
   ensure_plots_dir w =
     (print_line ''Created directory: visualizations''
        (w\<lparr>fs := (fs w)(PLOTS_DIR \<mapsto> Directory)\<rparr>), Inr ())"
  by (simp add: ensure_plots_dir_def PLOTS_DIR_def)

lemma ensure_keeps: "fs w PLOTS_DIR \<noteq> None \<Longrightarrow> ensure_plots_dir w = (w, Inr ())"
  by (auto simp add: ensure_plots_dir_def)

text \<open>
  C1, as stated: a response whose forecast list is missing or empty gives an absent
  result, and no charts. For an empty list the function returns six empty columns, and
  \<^verbatim>\<open>main\<close> goes on to the rendering stage: it creates the directory.
\<close>

theorem empty_list_is_processed:
  "process_forecast_data (answering (ok_response empty_forecast)) empty_forecast blank_world
     = (blank_world, Inr (Some empty_columns))
   \<and> fs (fst (main (answering (ok_response empty_forecast)) blank_world)) PLOTS_DIR
       = Some Directory"
proof -
  have p: "process_forecast_data (answering (ok_response empty_forecast)) empty_forecast
             blank_world = (blank_world, Inr (Some empty_columns))"
    unfolding empty_forecast_def by (rule process_empty_list) simp
  then have "snd (process_forecast_data (answering (ok_response empty_forecast)) empty_forecast
             blank_world) = Inr (Some empty_columns)"
    by simp
  from main_success [OF answering_answers this, of blank_world]
  have m: "main (answering (ok_response empty_forecast)) blank_world
             = render_all (answering (ok_response empty_forecast)) empty_columns ''Paris''
                 (before_rendering (answering (ok_response empty_forecast)) ''ABC'' ''Paris''
                    blank_world)" .
  have "ready (before_rendering (answering (ok_response empty_forecast)) ''ABC'' ''Paris''
          blank_world)"
    by (rule ready_before_rendering [OF usable_blank])
  then have "fs (before_rendering (answering (ok_response empty_forecast)) ''ABC'' ''Paris''
          blank_world) PLOTS_DIR = Some Directory"
    by (simp add: ready_def)
  with p show ?thesis
    unfolding m by (simp add: render_all_keeps_dir)
qed

text \<open>
  C1, amended: for every response dict without the key \<open>list\<close> (the empty dict
  included), \<^verbatim>\<open>process_forecast_data\<close> reports invalid data and returns \<^verbatim>\<open>None\<close>, and a run
  of \<^verbatim>\<open>main\<close> that receives this response ends normally with no file written and no
  figure shown. A response whose forecast list is empty is not rejected: the function
  returns six empty columns.
\<close>

theorem absent_without_list:
  "(''list'' \<notin> set (map fst kvs) \<longrightarrow>
      process_forecast_data P (JObj kvs) w =
        (print_line ''Error: Invalid or empty data received from API.'' w, Inr None)
      \<and> (answers_with P k c (JObj kvs) \<longrightarrow>
           snd (main P w) = Inr () \<and> fs (fst (main P w)) = fs w
           \<and> shown (fst (main P w)) = shown w))
   \<and> (map_of kvs' ''list'' = Some (JList []) \<longrightarrow>
      process_forecast_data P (JObj kvs') w = (w, Inr (Some empty_columns)))"
proof (intro conjI impI)
  assume a: "''list'' \<notin> set (map fst kvs)"
  then show p: "process_forecast_data P (JObj kvs) w =
        (print_line ''Error: Invalid or empty data received from API.'' w, Inr None)"
    by (rule process_without_list)
  assume b: "answers_with P k c (JObj kvs)"
  from p have "\<not> truthy (JObj kvs) \<or> snd (process_forecast_data P (JObj kvs) w) = Inr None"
    by simp
  from main_absent [OF b this, of w]
  show "snd (main P w) = Inr ()" "fs (fst (main P w)) = fs w" "shown (fst (main P w)) = shown w"
    by simp_all
next
  assume "map_of kvs' ''list'' = Some (JList [])"
  then show "process_forecast_data P (JObj kvs') w = (w, Inr (Some empty_columns))"
    by (rule process_empty_list)
qed

theorem absent_without_list_witness:
  "''list'' \<notin> set (map fst [(''cod'', JStr ''200''), (''message'', JInt 0)])
   \<and> answers_with (answering (ok_response without_list)) ''ABC'' ''Paris'' without_list
   \<and> process_forecast_data (answering (ok_response without_list)) without_list blank_world
       = (print_line ''Error: Invalid or empty data received from API.'' blank_world, Inr None)
   \<and> snd (main (answering (ok_response without_list)) blank_world) = Inr ()
   \<and> fs (fst (main (answering (ok_response without_list)) blank_world)) = fs blank_world
   \<and> shown (fst (main (answering (ok_response without_list)) blank_world)) = []
   \<and> map_of [(''cod'', JStr ''200''), (''list'', JList [])] ''list'' = Some (JList [])
   \<and> process_forecast_data (answering (ok_response without_list)) empty_forecast blank_world
       = (blank_world, Inr (Some empty_columns))"
proof -
  have h1: "''list'' \<notin> set (map fst [(''cod'', JStr ''200''), (''message'', JInt 0)])"
    by simp
  have h2: "answers_with (answering (ok_response without_list)) ''ABC'' ''Paris''
              (JObj [(''cod'', JStr ''200''), (''message'', JInt 0)])"
    using answering_answers [of without_list] by (simp add: without_list_def)
  have h3: "map_of [(''cod'', JStr ''200''), (''list'', JList [])] ''list'' = Some (JList [])"
    by simp
  from absent_without_list [where kvs = "[(''cod'', JStr ''200''), (''message'', JInt 0)]"
      and kvs' = "[(''cod'', JStr ''200''), (''list'', JList [])]"
      and P = "answering (ok_response without_list)" and w = blank_world
      and k = "''ABC''" and c = "''Paris''"] h1 h2 h3
  show ?thesis
    by (simp add: without_list_def empty_forecast_def blank_world_def)
qed

text \<open>
  C6, as stated: each of the four rendering operations ensures that the destination
  directory exists before it writes. None of them does: where the directory is
  absent, each raises at its \<^verbatim>\<open>savefig\<close> and leaves the world as it was.
\<close>

theorem rendering_alone_needs_directory:
  "plot_temperature_forecast (answering (ok_response scenario_response))
     (timestamps scenario_columns) (temperatures scenario_columns)
     (feels_like_temps scenario_columns) ''Paris'' blank_world
     = (blank_world, Inl FileNotFoundError)
   \<and> plot_humidity_forecast (answering (ok_response scenario_response))
     (timestamps scenario_columns) (humidities scenario_columns) ''Paris'' blank_world
     = (blank_world, Inl FileNotFoundError)
   \<and> plot_wind_speed_forecast (answering (ok_response scenario_response))
     (timestamps scenario_columns) (wind_speeds scenario_columns) ''Paris'' blank_world
     = (blank_world, Inl FileNotFoundError)
   \<and> plot_weather_conditions_pie (answering (ok_response scenario_response))
     (weather_descriptions_main scenario_columns) ''Paris'' blank_world
     = (blank_world, Inl FileNotFoundError)"
  by (simp add: plot_temperature_forecast_def plot_humidity_forecast_def
      plot_wind_speed_forecast_def plot_weather_conditions_pie_def Let_def seq_def
      sns_lineplot_def answering_def zone_platform_def
      savefig_def blank_world_def scenario_columns_def)

text \<open>
  C6, amended: \<^verbatim>\<open>ensure_plots_dir\<close> creates the destination directory if the path is
  absent and does nothing, raising no error, if it is present; \<^verbatim>\<open>main\<close> calls it once,
  before the four rendering operations, which do not create the directory themselves.
  So in a run that reaches rendering, from a world where the destination is absent or
  a directory, the four operations start in a world where the directory exists, and it
  is still there when the run ends; where the plotting library draws the lines, the
  three line charts are written into it, and so is the pie chart when there are labels
  to count.
\<close>

theorem directory_ensured_by_main:
  "(fs w PLOTS_DIR = None \<longrightarrow>
      ensure_plots_dir w =
        (print_line ''Created directory: visualizations''
           (w\<lparr>fs := (fs w)(PLOTS_DIR \<mapsto> Directory)\<rparr>), Inr ()))
   \<and> (fs w PLOTS_DIR \<noteq> None \<longrightarrow> ensure_plots_dir w = (w, Inr ()))
   \<and> (answers_with P k c d \<and> snd (process_forecast_data P d w) = Inr (Some cols) \<and> usable w
        \<longrightarrow>
        main P w = render_all P cols c (before_rendering P k c w)
        \<and> fs (before_rendering P k c w) PLOTS_DIR = Some Directory
        \<and> fs (fst (main P w)) PLOTS_DIR = Some Directory
        \<and> (drawable P cols \<longrightarrow>
             fs (fst (main P w)) (plot_path ''temperature_forecast.png'')
               = Some (Image (temperature_figure P cols c))
             \<and> fs (fst (main P w)) (plot_path ''humidity_forecast.png'')
                 = Some (Image (humidity_figure P cols c))
             \<and> fs (fst (main P w)) (plot_path ''wind_speed_forecast.png'')
                 = Some (Image (wind_speed_figure P cols c))
             \<and> (weather_descriptions_main cols \<noteq> []
                  \<and> list_all hashable (weather_descriptions_main cols) \<longrightarrow>
                  snd (main P w) = Inr ()
                  \<and> fs (fst (main P w)) (plot_path ''weather_conditions_pie_chart.png'')
                      = Some (Image (conditions_pie P cols c)))))"
proof (intro conjI impI)
  assume "fs w PLOTS_DIR = None"
  then show "ensure_plots_dir w =
        (print_line ''Created directory: visualizations''
           (w\<lparr>fs := (fs w)(PLOTS_DIR \<mapsto> Directory)\<rparr>), Inr ())"
    by (rule ensure_creates)
next
  assume "fs w PLOTS_DIR \<noteq> None"
  then show "ensure_plots_dir w = (w, Inr ())" by (rule ensure_keeps)
next
  assume a: "answers_with P k c d \<and> snd (process_forecast_data P d w) = Inr (Some cols)
             \<and> usable w"
  then have m: "main P w = render_all P cols c (before_rendering P k c w)"
    using main_success by blast
  from a have r: "ready (before_rendering P k c w)"
    using ready_before_rendering by blast
  show "main P w = render_all P cols c (before_rendering P k c w)" by (rule m)
  from r show b: "fs (before_rendering P k c w) PLOTS_DIR = Some Directory"
    by (simp add: ready_def)
  from b show "fs (fst (main P w)) PLOTS_DIR = Some Directory"
    unfolding m by (simp add: render_all_keeps_dir)
  assume dr: "drawable P cols"
  from render_all_three_files [OF r dr, of c]
  show "fs (fst (main P w)) (plot_path ''temperature_forecast.png'')
       = Some (Image (temperature_figure P cols c))"
    "fs (fst (main P w)) (plot_path ''humidity_forecast.png'')
       = Some (Image (humidity_figure P cols c))"
    "fs (fst (main P w)) (plot_path ''wind_speed_forecast.png'')
       = Some (Image (wind_speed_figure P cols c))"
    unfolding m by simp_all
  assume l: "weather_descriptions_main cols \<noteq> []
             \<and> list_all hashable (weather_descriptions_main cols)"
  then have h: "list_all hashable (weather_descriptions_main cols)" by simp
  from render_all_pie_file [OF r h dr, of c] l
  show "snd (main P w) = Inr ()"
    "fs (fst (main P w)) (plot_path ''weather_conditions_pie_chart.png'')
       = Some (Image (conditions_pie P cols c))"
    unfolding m by simp_all
qed

theorem directory_ensured_by_main_witness:
  "fs blank_world PLOTS_DIR = None
   \<and> ensure_plots_dir blank_world
       = (print_line ''Created directory: visualizations'' prepared_world, Inr ())
   \<and> fs prepared_world PLOTS_DIR \<noteq> None
   \<and> ensure_plots_dir prepared_world = (prepared_world, Inr ())
   \<and> answers_with scenario_platform ''ABC'' ''Paris'' scenario_response
   \<and> snd (process_forecast_data scenario_platform scenario_response blank_world)
       = Inr (Some scenario_columns)
   \<and> usable blank_world
   \<and> drawable scenario_platform scenario_columns
   \<and> weather_descriptions_main scenario_columns \<noteq> []
   \<and> list_all hashable (weather_descriptions_main scenario_columns)
   \<and> snd (main scenario_platform blank_world) = Inr ()
   \<and> fs (fst (main scenario_platform blank_world)) PLOTS_DIR = Some Directory
   \<and> fs (fst (main scenario_platform blank_world)) (plot_path ''humidity_forecast.png'')
       = Some (Image (humidity_figure scenario_platform scenario_columns ''Paris''))
   \<and> fs (fst (main scenario_platform blank_world))
         (plot_path ''weather_conditions_pie_chart.png'')
       = Some (Image (conditions_pie scenario_platform scenario_columns ''Paris''))"
proof -
  have h1: "fs blank_world PLOTS_DIR = None" by (simp add: blank_world_def)
  have h2: "fs prepared_world PLOTS_DIR \<noteq> None" by (simp add: prepared_world_def)
  have h3: "snd (process_forecast_data scenario_platform scenario_response blank_world)
              = Inr (Some scenario_columns)"
    by (simp add: scenario_process)
  have h4: "weather_descriptions_main scenario_columns \<noteq> []"
    "list_all hashable (weather_descriptions_main scenario_columns)"
    by (simp_all add: scenario_columns_def)
  note t = directory_ensured_by_main [where w = blank_world and P = scenario_platform
      and k = "''ABC''" and c = "''Paris''" and d = scenario_response
      and cols = scenario_columns]
  from t h1 have a: "ensure_plots_dir blank_world
       = (print_line ''Created directory: visualizations'' prepared_world, Inr ())"
    by (simp add: prepared_world_def)
  from directory_ensured_by_main [where w = prepared_world] h2
  have b: "ensure_plots_dir prepared_world = (prepared_world, Inr ())"
    by blast
  from t h3 h4 scenario_answers usable_blank scenario_drawable
  have c: "snd (main scenario_platform blank_world) = Inr ()"
    "fs (fst (main scenario_platform blank_world)) PLOTS_DIR = Some Directory"
    "fs (fst (main scenario_platform blank_world)) (plot_path ''humidity_forecast.png'')
       = Some (Image (humidity_figure scenario_platform scenario_columns ''Paris''))"
    "fs (fst (main scenario_platform blank_world))
         (plot_path ''weather_conditions_pie_chart.png'')
       = Some (Image (conditions_pie scenario_platform scenario_columns ''Paris''))"
    by blast+
  from a b c h1 h2 h3 h4 scenario_answers usable_blank scenario_drawable
  show ?thesis by blast
qed

text \<open>
  C7, as stated: a run in which every entry has an empty condition list produces
  exactly three chart files. Every such entry gets the label \<open>N/A\<close>, so the label
  sequence is not empty and the pie chart is written as well.
\<close>

theorem all_empty_conditions_four_charts:
  "list_all no_conditions bare_entries
   \<and> snd (main (answering (ok_response bare_forecast)) blank_world) = Inr ()
   \<and> fs (fst (main (answering (ok_response bare_forecast)) blank_world))
         (plot_path ''weather_conditions_pie_chart.png'')
       = Some (Image (ConditionsPie [JStr ''N/A'', JStr ''N/A'']
                        ''Distribution of Weather Conditions for Paris (Next 5 Days)''))"
proof -
  let ?P = "answering (ok_response bare_forecast)"
  have m: "main ?P blank_world = render_all ?P bare_columns ''Paris''
             (before_rendering ?P ''ABC'' ''Paris'' blank_world)"
    by (rule main_success [OF answering_answers bare_process])
  have r: "ready (before_rendering ?P ''ABC'' ''Paris'' blank_world)"
    by (rule ready_before_rendering [OF usable_blank])
  have h: "list_all hashable (weather_descriptions_main bare_columns)"
    by (simp add: bare_columns_def)
  from render_all_pie_file [OF r h bare_drawable [of "ok_response bare_forecast"],
      where c = "''Paris''"] bare_no_conditions
  show ?thesis
    unfolding m by (simp add: conditions_pie_def title_Paris bare_columns_def)
qed

text \<open>
  C7, amended: if the label sequence passed to \<^verbatim>\<open>plot_weather_conditions_pie\<close> is empty,
  the step reports that there is nothing to plot and writes nothing, while the three
  line charts, where the plotting library draws their lines, are written and the run
  ends normally. In a run in which every entry has an empty condition list, every
  entry gets the label \<open>N/A\<close>: the label sequence is empty only when the forecast list
  is, and for a list of \<open>N > 0\<close> entries whose lines the library draws, the pie chart
  is drawn from \<open>N\<close> labels \<open>N/A\<close> and written as the fourth chart file.
\<close>

theorem empty_labels_skip_pie:
  "plot_weather_conditions_pie P [] c w =
     (print_line ''No weather descriptions to plot for pie chart.'' w, Inr ())
   \<and> (ready w \<and> drawable P cols \<and> weather_descriptions_main cols = [] \<longrightarrow>
        snd (render_all P cols c w) = Inr ()
        \<and> fs (fst (render_all P cols c w)) (plot_path ''temperature_forecast.png'')
            = Some (Image (temperature_figure P cols c))
        \<and> fs (fst (render_all P cols c w)) (plot_path ''humidity_forecast.png'')
            = Some (Image (humidity_figure P cols c))
        \<and> fs (fst (render_all P cols c w)) (plot_path ''wind_speed_forecast.png'')
            = Some (Image (wind_speed_figure P cols c))
        \<and> fs (fst (render_all P cols c w)) (plot_path ''weather_conditions_pie_chart.png'')
            = fs w (plot_path ''weather_conditions_pie_chart.png''))
   \<and> (answers_with P k c (JObj kvs) \<and> map_of kvs ''list'' = Some (JList es)
        \<and> list_all no_conditions es
        \<and> snd (process_forecast_data P (JObj kvs) w) = Inr (Some cols') \<and> usable w \<longrightarrow>
        weather_descriptions_main cols' = replicate (length es) (JStr ''N/A'')
        \<and> (drawable P cols' \<longrightarrow>
             snd (main P w) = Inr ()
             \<and> fs (fst (main P w)) (plot_path ''weather_conditions_pie_chart.png'')
                 = (if es = [] then fs w (plot_path ''weather_conditions_pie_chart.png'')
                    else Some (Image (ConditionsPie (replicate (length es) (JStr ''N/A''))
                           (''Distribution of Weather Conditions for '' @ title P c
                            @ '' (Next 5 Days)''))))))"
proof (intro conjI impI)
  show "plot_weather_conditions_pie P [] c w =
     (print_line ''No weather descriptions to plot for pie chart.'' w, Inr ())"
    by (rule plot_pie_skip)
next
  assume a: "ready w \<and> drawable P cols \<and> weather_descriptions_main cols = []"
  then have r: "ready w" and dr: "drawable P cols"
    and e: "weather_descriptions_main cols = []" by simp_all
  from e have h: "list_all hashable (weather_descriptions_main cols)" by simp
  from render_all_pie_file [OF r h dr, of c] e
  show "snd (render_all P cols c w) = Inr ()"
    "fs (fst (render_all P cols c w)) (plot_path ''weather_conditions_pie_chart.png'')
       = fs w (plot_path ''weather_conditions_pie_chart.png'')"
    by simp_all
  from render_all_three_files [OF r dr, of c]
  show "fs (fst (render_all P cols c w)) (plot_path ''temperature_forecast.png'')
            = Some (Image (temperature_figure P cols c))"
    "fs (fst (render_all P cols c w)) (plot_path ''humidity_forecast.png'')
            = Some (Image (humidity_figure P cols c))"
    "fs (fst (render_all P cols c w)) (plot_path ''wind_speed_forecast.png'')
            = Some (Image (wind_speed_figure P cols c))"
    by simp_all
next
  assume a: "answers_with P k c (JObj kvs) \<and> map_of kvs ''list'' = Some (JList es)
        \<and> list_all no_conditions es
        \<and> snd (process_forecast_data P (JObj kvs) w) = Inr (Some cols') \<and> usable w"
  then have p: "snd (process_forecast_data P (JObj kvs) w) = Inr (Some cols')" by simp
  then have "process_forecast_data P (JObj kvs) w = (w, Inr (Some cols'))"
    by (rule process_any_world)
  with a have f: "for_loop P es empty_columns = Inr cols'"
    using process_Some_D by blast
  from a no_conditions_labels [OF f]
  show l: "weather_descriptions_main cols' = replicate (length es) (JStr ''N/A'')" by simp
  assume dr: "drawable P cols'"
  from a have m: "main P w = render_all P cols' c (before_rendering P k c w)"
    using main_success [OF _ p] by blast
  from a have r: "ready (before_rendering P k c w)" using ready_before_rendering by blast
  have h: "list_all hashable (weather_descriptions_main cols')"
    unfolding l by (simp add: list_all_length)
  from a have b: "fs (before_rendering P k c w) (plot_path ''weather_conditions_pie_chart.png'')
      = fs w (plot_path ''weather_conditions_pie_chart.png'')"
    using before_rendering_pie by blast
  from render_all_pie_file [OF r h dr, of c]
  show "snd (main P w) = Inr ()"
    "fs (fst (main P w)) (plot_path ''weather_conditions_pie_chart.png'')
            = (if es = [] then fs w (plot_path ''weather_conditions_pie_chart.png'')
               else Some (Image (ConditionsPie (replicate (length es) (JStr ''N/A''))
                      (''Distribution of Weather Conditions for '' @ title P c
                       @ '' (Next 5 Days)''))))"
    unfolding m by (simp_all add: l b conditions_pie_def)
qed

theorem empty_labels_skip_pie_witness:
  "ready prepared_world \<and> drawable scenario_platform empty_columns
   \<and> weather_descriptions_main empty_columns = []
   \<and> snd (render_all scenario_platform empty_columns ''Paris'' prepared_world) = Inr ()
   \<and> fs (fst (render_all scenario_platform empty_columns ''Paris'' prepared_world))
        (plot_path ''wind_speed_forecast.png'')
       = Some (Image (wind_speed_figure scenario_platform empty_columns ''Paris''))
   \<and> fs (fst (render_all scenario_platform empty_columns ''Paris'' prepared_world))
        (plot_path ''weather_conditions_pie_chart.png'') = None
   \<and> answers_with (answering (ok_response bare_forecast)) ''ABC'' ''Paris'' bare_forecast
   \<and> map_of [(''list'', JList bare_entries)] ''list'' = Some (JList bare_entries)
   \<and> list_all no_conditions bare_entries
   \<and> snd (process_forecast_data (answering (ok_response bare_forecast)) bare_forecast
            blank_world) = Inr (Some bare_columns)
   \<and> usable blank_world
   \<and> drawable (answering (ok_response bare_forecast)) bare_columns
   \<and> weather_descriptions_main bare_columns = replicate (length bare_entries) (JStr ''N/A'')
   \<and> snd (main (answering (ok_response bare_forecast)) blank_world) = Inr ()
   \<and> fs (fst (main (answering (ok_response bare_forecast)) blank_world))
        (plot_path ''weather_conditions_pie_chart.png'')
       = Some (Image (ConditionsPie (replicate (length bare_entries) (JStr ''N/A''))
                        (''Distribution of Weather Conditions for ''
                         @ title (answering (ok_response bare_forecast)) ''Paris''
                         @ '' (Next 5 Days)'')))"
proof -
  have e: "weather_descriptions_main empty_columns = []" by (simp add: empty_columns_def)
  have de: "drawable scenario_platform empty_columns"
    by (simp add: drawable_def empty_columns_def scenario_platform_def zone_platform_def)
  have p: "fs prepared_world (plot_path ''weather_conditions_pie_chart.png'') = None"
    by (simp add: prepared_world_def blank_world_def)
  have l: "map_of [(''list'', JList bare_entries)] ''list'' = Some (JList bare_entries)"
    by simp
  have a: "answers_with (answering (ok_response bare_forecast)) ''ABC'' ''Paris''
             (JObj [(''list'', JList bare_entries)])"
    using answering_answers [of bare_forecast] by (simp add: bare_forecast_def)
  have b: "snd (process_forecast_data (answering (ok_response bare_forecast))
             (JObj [(''list'', JList bare_entries)]) blank_world) = Inr (Some bare_columns)"
    using bare_process [of blank_world] by (simp add: bare_forecast_def)
  have ne: "bare_entries \<noteq> []" by (simp add: bare_entries_def)
  from empty_labels_skip_pie [where w = prepared_world and cols = empty_columns
      and P = scenario_platform and c = "''Paris''"] ready_prepared de e p
  have one: "snd (render_all scenario_platform empty_columns ''Paris'' prepared_world) = Inr ()"
    "fs (fst (render_all scenario_platform empty_columns ''Paris'' prepared_world))
        (plot_path ''wind_speed_forecast.png'')
       = Some (Image (wind_speed_figure scenario_platform empty_columns ''Paris''))"
    "fs (fst (render_all scenario_platform empty_columns ''Paris'' prepared_world))
        (plot_path ''weather_conditions_pie_chart.png'') = None"
    by simp_all
  from empty_labels_skip_pie [where w = blank_world and P = "answering (ok_response bare_forecast)"
      and k = "''ABC''" and c = "''Paris''" and kvs = "[(''list'', JList bare_entries)]"
      and es = bare_entries and cols' = bare_columns] a l bare_no_conditions b usable_blank ne
    bare_drawable
  have two: "weather_descriptions_main bare_columns
               = replicate (length bare_entries) (JStr ''N/A'')"
    "snd (main (answering (ok_response bare_forecast)) blank_world) = Inr ()"
    "fs (fst (main (answering (ok_response bare_forecast)) blank_world))
        (plot_path ''weather_conditions_pie_chart.png'')
       = Some (Image (ConditionsPie (replicate (length bare_entries) (JStr ''N/A''))
                        (''Distribution of Weather Conditions for ''
                         @ title (answering (ok_response bare_forecast)) ''Paris''
                         @ '' (Next 5 Days)'')))"
    by simp_all
  from one two ready_prepared de e a l bare_no_conditions b usable_blank bare_drawable
  show ?thesis by (simp add: bare_forecast_def)
qed

text \<open>
  C8. The transformation keeps the order of the entries: the temperature column holds
  the temperatures of the entries in the order of the forecast list, and where the
  plotting library draws the two lines of the temperature chart, the chart that \<^verbatim>\<open>main\<close>
  writes is drawn from that column as it is. For entries of temperatures 10, 12, 9 the
  chart receives \<open>[10, 12, 9]\<close>.
\<close>

theorem temperatures_charted_in_order:
  assumes "answers_with P k c (JObj kvs)" and "map_of kvs ''list'' = Some (JList es)"
    and "snd (process_forecast_data P (JObj kvs) w) = Inr (Some cols)" and "usable w"
    and "lineplot P (timestamps cols) (temperatures cols) = None"
    and "lineplot P (timestamps cols) (feels_like_temps cols) = None"
  shows "map Inr (temperatures cols)
           = map (\<lambda>e. and_then (getitem e ''main'') (\<lambda>m. getitem m ''temp'')) es
         \<and> fs (fst (main P w)) (plot_path ''temperature_forecast.png'')
             = Some (Image (TemperatureFigure (timestamps cols) (temperatures cols)
                     (feels_like_temps cols)
                     (''5-Day Temperature & Feels Like Forecast for '' @ title P c)))"
proof -
  from process_any_world [OF assms(3)]
  have "process_forecast_data P (JObj kvs) w = (w, Inr (Some cols))" .
  from process_Some_D [OF this assms(2)] have f: "for_loop P es empty_columns = Inr cols" .
  have m: "main P w = render_all P cols c (before_rendering P k c w)"
    by (rule main_success [OF assms(1,3)])
  have r: "ready (before_rendering P k c w)"
    by (rule ready_before_rendering [OF assms(4)])
  from render_all_temperature_file [OF r assms(5,6), of c] temperatures_in_order [OF f]
  show ?thesis unfolding m by (simp add: temperature_figure_def)
qed

theorem temperatures_charted_in_order_witness:
  "answers_with scenario_platform ''ABC'' ''Paris'' scenario_response
   \<and> map_of [(''cod'', JStr ''200''), (''list'', JList scenario_entries)] ''list''
       = Some (JList scenario_entries)
   \<and> snd (process_forecast_data scenario_platform scenario_response blank_world)
       = Inr (Some scenario_columns)
   \<and> usable blank_world
   \<and> lineplot scenario_platform (timestamps scenario_columns) (temperatures scenario_columns)
       = None
   \<and> lineplot scenario_platform (timestamps scenario_columns)
        (feels_like_temps scenario_columns) = None
   \<and> map (\<lambda>e. and_then (getitem e ''main'') (\<lambda>m. getitem m ''temp'')) scenario_entries
       = [Inr (JInt 10), Inr (JInt 12), Inr (JInt 9)]
   \<and> fs (fst (main scenario_platform blank_world)) (plot_path ''temperature_forecast.png'')
       = Some (Image (TemperatureFigure
           [Datetime 1700003600 0, Datetime 1700014400 0, Datetime 1700025200 0]
           [JInt 10, JInt 12, JInt 9] [JInt 10, JInt 12, JInt 9]
           ''5-Day Temperature & Feels Like Forecast for Paris''))"
proof -
  have l: "map_of [(''cod'', JStr ''200''), (''list'', JList scenario_entries)] ''list''
       = Some (JList scenario_entries)"
    by simp
  have a: "answers_with scenario_platform ''ABC'' ''Paris''
             (JObj [(''cod'', JStr ''200''), (''list'', JList scenario_entries)])"
    using scenario_answers by (simp add: scenario_response_def)
  have p: "snd (process_forecast_data scenario_platform
             (JObj [(''cod'', JStr ''200''), (''list'', JList scenario_entries)]) blank_world)
           = Inr (Some scenario_columns)"
    using scenario_process [of blank_world] by (simp add: scenario_response_def)
  have t: "title scenario_platform ''Paris'' = ''Paris''"
    using title_Paris [of "ok_response scenario_response"]
    by (simp add: scenario_platform_def answering_def)
  from scenario_drawable
  have d: "lineplot scenario_platform (timestamps scenario_columns)
             (temperatures scenario_columns) = None"
    "lineplot scenario_platform (timestamps scenario_columns)
       (feels_like_temps scenario_columns) = None"
    by (simp_all add: drawable_def)
  from temperatures_charted_in_order [OF a l p usable_blank d] t
  have "map (\<lambda>e. and_then (getitem e ''main'') (\<lambda>m. getitem m ''temp'')) scenario_entries
       = [Inr (JInt 10), Inr (JInt 12), Inr (JInt 9)]"
    "fs (fst (main scenario_platform blank_world)) (plot_path ''temperature_forecast.png'')
       = Some (Image (TemperatureFigure
           [Datetime 1700003600 0, Datetime 1700014400 0, Datetime 1700025200 0]
           [JInt 10, JInt 12, JInt 9] [JInt 10, JInt 12, JInt 9]
           ''5-Day Temperature & Feels Like Forecast for Paris''))"
    by (simp_all add: scenario_columns_def)
  with a l p usable_blank d show ?thesis by (simp add: scenario_response_def)
qed

end
